theory Spec2Isabelle
  imports Complex_Main "HOL-Library.Multiset"
begin

section \<open>Errors\<close>

text \<open>
  The Python exceptions the modelled code can raise. A function that may raise returns
  \<open>error + 'a\<close>, with \<open>Inl\<close> for the exception.
\<close>

datatype error =
  IndexError | AssertionError | KeyError | AttributeError | RuntimeError | ValueError

section \<open>Paired truncation (\<open>_truncate_seq_pair\<close>, data.py)\<close>

text \<open>
  The \<open>while True\<close> loop of \<open>_truncate_seq_pair\<close>. The source mutates both lists in place;
  the model returns the two lists as they are when the loop breaks. The budget is a Python
  integer and may be negative. \<open>list.pop(0)\<close> removes the first element and raises
  IndexError on an empty list: the \<open>[]\<close> branch of each \<open>case\<close>.
\<close>

function truncate_seq_pair :: "'a list \<Rightarrow> 'a list \<Rightarrow> int \<Rightarrow> error + ('a list \<times> 'a list)" where
  "truncate_seq_pair tokens_a tokens_b max_length =
     (if int (length tokens_a + length tokens_b) \<le> max_length then Inr (tokens_a, tokens_b)
      else if length tokens_a > length tokens_b then
        (case tokens_a of
           [] \<Rightarrow> Inl IndexError
         | x # rest \<Rightarrow> truncate_seq_pair rest tokens_b max_length)
      else
        (case tokens_b of
           [] \<Rightarrow> Inl IndexError
         | x # rest \<Rightarrow> truncate_seq_pair tokens_a rest max_length))"
  by pat_completeness auto
termination
  by (relation "measure (\<lambda>(a, b, m). length a + length b)") auto

declare truncate_seq_pair.simps [simp del]

text \<open>
  The spec's words for one round of paired truncation: remove one token from the front of
  whichever sequence is currently longer; when the lengths are equal, from sequence B.
\<close>

fun spec_truncate_step :: "'a list \<times> 'a list \<Rightarrow> 'a list \<times> 'a list" where
  "spec_truncate_step (a, b) = (if length a > length b then (tl a, b) else (a, tl b))"

fun pair_length :: "'a list \<times> 'a list \<Rightarrow> nat" where
  "pair_length (a, b) = length a + length b"


section \<open>Feature builder (\<open>InputExample._text_pair_to_feature\<close>, data.py)\<close>

text \<open>
  The tokenizer is an external collaborator, taken as a parameter: the two methods the
  code calls on it. Tokens are strings, ids are Python integers.
\<close>

record tokenizer =
  tokenize :: "string \<Rightarrow> string list"
  convert_tokens_to_ids :: "string list \<Rightarrow> int list"

text \<open>
  Lines 169-170, the branch without a secondary text: when the tokens exceed
  \<open>max_seq_length - 2\<close>, the slice \<open>tokens_a[len(tokens_a) - (max_seq_length - 2):]\<close> keeps
  the tail. The start index of the slice is positive in that branch, so it never counts
  from the end; a start beyond the end gives the empty list, as \<open>drop\<close> does.
\<close>

definition truncate_single :: "'a list \<Rightarrow> int \<Rightarrow> 'a list" where
  "truncate_single tokens_a max_seq_length =
     (if int (length tokens_a) > max_seq_length - 2
      then drop (nat (int (length tokens_a) - (max_seq_length - 2))) tokens_a
      else tokens_a)"

text \<open>
  Lines 162-170. \<open>text_b\<close> is \<open>None\<close> or a string; \<open>if text_b:\<close> holds for a non-empty
  string only. The result is \<open>tokens_a\<close> and \<open>tokens_b\<close> (\<open>None\<close> when there is no
  secondary text) after truncation.
\<close>

definition truncate_tokens ::
  "string \<Rightarrow> string option \<Rightarrow> tokenizer \<Rightarrow> int \<Rightarrow> error + (string list \<times> string list option)" where
  "truncate_tokens text_a text_b tk max_seq_length =
     (let tokens_a = tokenize tk text_a in
      case text_b of
        None \<Rightarrow> Inr (truncate_single tokens_a max_seq_length, None)
      | Some t \<Rightarrow>
          if t = [] then Inr (truncate_single tokens_a max_seq_length, None)
          else
            (case truncate_seq_pair tokens_a (tokenize tk t) (max_seq_length - 3) of
               Inl e \<Rightarrow> Inl e
             | Inr (ta, tb) \<Rightarrow> Inr (ta, Some tb)))"

text \<open>
  Lines 191-213: the special tokens, the segment ids, the ids of the tokens, the mask,
  the zero padding (\<open>[0] * n\<close> is empty for a negative \<open>n\<close>) and the three assertions.
  \<open>if tokens_b:\<close> holds for a non-empty list only. The result is the returned tuple
  \<open>(input_ids, segment_ids, input_mask)\<close>.
\<close>

definition assemble_feature ::
  "string list \<Rightarrow> string list option \<Rightarrow> tokenizer \<Rightarrow> int \<Rightarrow> error + (int list \<times> int list \<times> int list)" where
  "assemble_feature tokens_a tokens_b tk max_seq_length =
     (let tokens = [''[CLS]''] @ tokens_a @ [''[SEP]''];
          segment_ids = replicate (length tokens) (0::int);
          second = (case tokens_b of None \<Rightarrow> [] | Some tb \<Rightarrow> tb);
          tokens = (if second = [] then tokens else tokens @ second @ [''[SEP]'']);
          segment_ids =
            (if second = [] then segment_ids
             else segment_ids @ replicate (length second + 1) (1::int));
          input_ids = convert_tokens_to_ids tk tokens;
          input_mask = replicate (length input_ids) (1::int);
          padding = replicate (nat (max_seq_length - int (length input_ids))) (0::int);
          input_ids = input_ids @ padding;
          input_mask = input_mask @ padding;
          segment_ids = segment_ids @ padding
      in if int (length input_ids) \<noteq> max_seq_length then Inl AssertionError
         else if int (length input_mask) \<noteq> max_seq_length then Inl AssertionError
         else if int (length segment_ids) \<noteq> max_seq_length then Inl AssertionError
         else Inr (input_ids, segment_ids, input_mask))"

definition text_pair_to_feature ::
  "string \<Rightarrow> string option \<Rightarrow> tokenizer \<Rightarrow> int \<Rightarrow> error + (int list \<times> int list \<times> int list)" where
  "text_pair_to_feature text_a text_b tk max_seq_length =
     (case truncate_tokens text_a text_b tk max_seq_length of
        Inl e \<Rightarrow> Inl e
      | Inr (tokens_a, tokens_b) \<Rightarrow> assemble_feature tokens_a tokens_b tk max_seq_length)"

text \<open>
  A small tokenizer for evaluating the model on concrete inputs: tokens are the words
  between spaces, the id of a token is its number of characters.
\<close>

fun split_words :: "string \<Rightarrow> string \<Rightarrow> string list" where
  "split_words w [] = (if w = [] then [] else [w])"
| "split_words w (c # cs) =
     (if c = CHR '' '' then (if w = [] then split_words [] cs else w # split_words [] cs)
      else split_words (w @ [c]) cs)"

definition whitespace_tokenizer :: tokenizer where
  "whitespace_tokenizer =
     \<lparr>tokenize = split_words [], convert_tokens_to_ids = map (\<lambda>t. int (length t))\<rparr>"

text \<open>
  A second one, with ids from a small vocabulary: 101 for \<open>[CLS]\<close>, 102 for \<open>[SEP]\<close>,
  100 (unknown) for every other token.
\<close>

definition vocabulary_tokenizer :: tokenizer where
  "vocabulary_tokenizer =
     \<lparr>tokenize = split_words [],
      convert_tokens_to_ids =
        map (\<lambda>t. if t = ''[CLS]'' then 101 else if t = ''[SEP]'' then 102 else 100)\<rparr>"

section \<open>Dataset (\<open>TripletTextDataset\<close>, data.py)\<close>

text \<open>
  A label as the dataset receives it, and a cell of a table: a string, or \<open>None\<close> for
  Python's \<open>None\<close> and for the missing value (NaN) of a table.
\<close>

type_synonym cell = "string option"

record 't TripletTextDataset =
  text_a_list :: "'t list"
  text_b_list :: "'t list"
  text_c_list :: "'t list"
  label_list :: "int list"

text \<open>
  \<open>__init__\<close>, lines 12-22. The parameter \<open>label_list\<close> is \<open>None\<close> (the default) or a
  list; the assertion compares the length of the labels with each of the three text lists.
\<close>

definition dataset_init ::
  "'t list \<Rightarrow> 't list \<Rightarrow> 't list \<Rightarrow> cell list option \<Rightarrow> error + 't TripletTextDataset" where
  "dataset_init texts_a texts_b texts_c labels =
     (let labels =
            (case labels of
               None \<Rightarrow> replicate (length texts_a) None
             | Some ls \<Rightarrow> if length ls = 0 then replicate (length texts_a) None else ls)
      in if length labels = length texts_a \<and> length labels = length texts_b \<and>
            length labels = length texts_c
         then Inr \<lparr>text_a_list = texts_a, text_b_list = texts_b, text_c_list = texts_c,
                   label_list = map (\<lambda>label. if label = Some ''B'' then 0 else 1) labels\<rparr>
         else Inl AssertionError)"

text \<open>\<open>__len__\<close>, lines 24-25.\<close>

definition dataset_len :: "'t TripletTextDataset \<Rightarrow> nat" where
  "dataset_len ds = length (label_list ds)"

text \<open>
  Indexing a Python list with an integer: a negative index counts from the end, an index
  out of range raises IndexError.
\<close>

definition list_getitem :: "'a list \<Rightarrow> int \<Rightarrow> error + 'a" where
  "list_getitem xs index =
     (if 0 \<le> index \<and> index < int (length xs) then Inr (xs ! nat index)
      else if index < 0 \<and> - int (length xs) \<le> index
        then Inr (xs ! nat (int (length xs) + index))
      else Inl IndexError)"

text \<open>\<open>__getitem__\<close>, lines 27-34: the four lists are indexed in turn.\<close>

definition dataset_getitem :: "'t TripletTextDataset \<Rightarrow> int \<Rightarrow> error + ('t \<times> 't \<times> 't \<times> int)" where
  "dataset_getitem ds index =
     (case list_getitem (text_a_list ds) index of
        Inl e \<Rightarrow> Inl e
      | Inr text_a \<Rightarrow>
     (case list_getitem (text_b_list ds) index of
        Inl e \<Rightarrow> Inl e
      | Inr text_b \<Rightarrow>
     (case list_getitem (text_c_list ds) index of
        Inl e \<Rightarrow> Inl e
      | Inr text_c \<Rightarrow>
     (case list_getitem (label_list ds) index of
        Inl e \<Rightarrow> Inl e
      | Inr label \<Rightarrow> Inr (text_a, text_b, text_c, label)))))"

text \<open>
  A table (pandas DataFrame) with the text columns A, B and C and, when it has one, the
  column \<open>label\<close>. A row is the tuple of its cells. Tables that lack one of the three text
  columns (reading the column raises KeyError) and columns beyond these four are outside
  this type.
\<close>

type_synonym text_row = "cell \<times> cell \<times> cell"
type_synonym row = "cell \<times> cell \<times> cell \<times> cell"

datatype dataframe = Unlabelled "text_row list" | Labelled "row list"

fun nrows :: "dataframe \<Rightarrow> nat" where
  "nrows (Unlabelled rs) = length rs"
| "nrows (Labelled rs) = length rs"

text \<open>
  The rows of a table with the cell of \<open>label\<close> last. A table without that column
  has the missing value there, as \<open>pd.concat\<close> gives it when another table of the
  concatenation has the column.
\<close>

fun frame_rows :: "dataframe \<Rightarrow> row list" where
  "frame_rows (Unlabelled rs) = map (\<lambda>(a, b, c). (a, b, c, None)) rs"
| "frame_rows (Labelled rs) = rs"

text \<open>
  \<open>from_dataframe\<close>, lines 36-44: \<open>df["label"] = "B"\<close> fills a new column with the string
  in every row.
\<close>

fun from_dataframe :: "dataframe \<Rightarrow> error + cell TripletTextDataset" where
  "from_dataframe (Unlabelled rs) =
     dataset_init (map (\<lambda>(a, b, c). a) rs) (map (\<lambda>(a, b, c). b) rs) (map (\<lambda>(a, b, c). c) rs)
       (Some (replicate (length rs) (Some ''B'')))"
| "from_dataframe (Labelled rs) =
     dataset_init (map (\<lambda>(a, b, c, l). a) rs) (map (\<lambda>(a, b, c, l). b) rs)
       (map (\<lambda>(a, b, c, l). c) rs) (Some (map (\<lambda>(a, b, c, l). l) rs))"

text \<open>
  \<open>DataFrame.drop_duplicates()\<close>: of the rows equal in every column the first is kept,
  in its place; two missing values count as equal.
\<close>

fun drop_duplicates :: "'a list \<Rightarrow> 'a list" where
  "drop_duplicates [] = []"
| "drop_duplicates (x # xs) = x # drop_duplicates (filter (\<lambda>y. y \<noteq> x) xs)"

text \<open>
  \<open>augment\<close>, lines 61-95. Each copy takes its columns from the original table, row by
  row (the copies share the original's index), and a constant label. \<open>df.sample(frac=1)\<close>
  reorders the rows at random: the reordering is the parameter \<open>shuffle\<close>.
\<close>

definition augment :: "(row list \<Rightarrow> row list) \<Rightarrow> dataframe \<Rightarrow> dataframe" where
  "augment shuffle df =
     (let rs = frame_rows df;
          df_cp1 = map (\<lambda>(a, b, c, l). (a, c, b, Some ''C'')) rs;
          df_cp2 = map (\<lambda>(a, b, c, l). (b, a, c, Some ''B'')) rs;
          df_cp3 = map (\<lambda>(a, b, c, l). (b, c, a, Some ''C'')) rs;
          df_cp4 = map (\<lambda>(a, b, c, l). (c, a, c, Some ''C'')) rs;
          df_cp5 = map (\<lambda>(a, b, c, l). (c, c, a, Some ''B'')) rs
      in Labelled (shuffle (drop_duplicates (rs @ df_cp1 @ df_cp2 @ df_cp3 @ df_cp4 @ df_cp5))))"

text \<open>
  A record of the input (a JSON object of a line of the file): the keys A, B and C, and
  the key \<open>label\<close> when the record has it.
\<close>

record triplet_record =
  key_A :: string
  key_B :: string
  key_C :: string
  key_label :: "string option"

text \<open>
  \<open>from_dict_list\<close>, lines 46-53. \<open>pd.DataFrame(data)\<close> has a column for every key of some
  record, with the missing value where a record lacks the key; for an empty list it has
  no column at all, and reading a text column then raises KeyError (in \<open>augment\<close> or in
  \<open>from_dataframe\<close>). \<open>from_jsons\<close>, lines 55-59, parses each line of the file into a
  record and calls \<open>from_dict_list\<close>.
\<close>

definition DataFrame :: "triplet_record list \<Rightarrow> dataframe" where
  "DataFrame data =
     (if list_ex (\<lambda>r. key_label r \<noteq> None) data
      then Labelled (map (\<lambda>r. (Some (key_A r), Some (key_B r), Some (key_C r), key_label r)) data)
      else Unlabelled (map (\<lambda>r. (Some (key_A r), Some (key_B r), Some (key_C r))) data))"

definition from_dict_list ::
  "(row list \<Rightarrow> row list) \<Rightarrow> triplet_record list \<Rightarrow> bool \<Rightarrow> error + cell TripletTextDataset" where
  "from_dict_list shuffle data use_augment =
     (if data = [] then Inl KeyError
      else
        (let df = DataFrame data;
             df = (case df of
                     Unlabelled rs \<Rightarrow> Labelled (map (\<lambda>(a, b, c). (a, b, c, Some ''B'')) rs)
                   | Labelled rs \<Rightarrow> df);
             df = (if use_augment then augment shuffle df else df)
         in from_dataframe df))"

section \<open>Example adapter and batch collator (data.py)\<close>

record InputFeatures =
  input_ids :: "int list"
  input_mask :: "int list"
  segment_ids :: "int list"

text \<open>\<open>InputFeatures.__init__\<close>, lines 128-131, with its parameters in their order.\<close>

definition InputFeatures_init :: "int list \<Rightarrow> int list \<Rightarrow> int list \<Rightarrow> InputFeatures" where
  "InputFeatures_init ids_arg mask_arg segment_arg =
     \<lparr>input_ids = ids_arg, input_mask = mask_arg, segment_ids = segment_arg\<rparr>"

text \<open>
  Tensors of integers by their entries: a tensor of one dimension is the list of its
  entries, one of two dimensions the list of its rows. The entries of a \<open>LongTensor\<close>
  are signed 64-bit integers.
\<close>

type_synonym tensor1 = "int list"
type_synonym tensor2 = "int list list"

definition in_int64 :: "int \<Rightarrow> bool" where
  "in_int64 x = (- (2 ^ 63) \<le> x \<and> x < 2 ^ 63)"

text \<open>
  \<open>torch.LongTensor(list)\<close> on a list of Python integers: a tensor of one dimension with
  the integers as entries; it raises RuntimeError (overflow) when an integer does not fit
  in 64 bits. The placement on a device does not change the entries and is left out.
\<close>

definition LongTensor :: "int list \<Rightarrow> error + tensor1" where
  "LongTensor xs = (if list_all in_int64 xs then Inr xs else Inl RuntimeError)"

definition shape2 :: "tensor2 \<Rightarrow> nat list" where
  "shape2 t = [length t, (case t of [] \<Rightarrow> 0 | r # rest \<Rightarrow> length r)]"

text \<open>A tensor of shape \<open>[n, m]\<close>: \<open>n\<close> rows, each of \<open>m\<close> entries.\<close>

definition has_shape2 :: "tensor2 \<Rightarrow> nat \<Rightarrow> nat \<Rightarrow> bool" where
  "has_shape2 t n m = (shape2 t = [n, m] \<and> list_all (\<lambda>r. length r = m) t)"

text \<open>\<open>InputFeatures.to_tensor\<close>, lines 133-138.\<close>

definition to_tensor :: "InputFeatures \<Rightarrow> error + (tensor1 \<times> tensor1 \<times> tensor1)" where
  "to_tensor f =
     (case LongTensor (input_ids f) of
        Inl e \<Rightarrow> Inl e
      | Inr ids \<Rightarrow>
     (case LongTensor (segment_ids f) of
        Inl e \<Rightarrow> Inl e
      | Inr segments \<Rightarrow>
     (case LongTensor (input_mask f) of
        Inl e \<Rightarrow> Inl e
      | Inr msk \<Rightarrow> Inr (ids, segments, msk))))"

record InputExample =
  text_a :: string
  text_b :: string
  text_c :: string
  label :: int

text \<open>
  \<open>to_two_pair_feature\<close>, lines 215-219: each text alone, with no secondary text. The
  tuple \<open>(input_ids, segment_ids, input_mask)\<close> that the feature builder returns is passed
  to \<open>InputFeatures\<close> position by position (\<open>InputFeatures(*a)\<close>).
\<close>

definition to_two_pair_feature ::
  "InputExample \<Rightarrow> tokenizer \<Rightarrow> int \<Rightarrow> error + (InputFeatures \<times> InputFeatures \<times> InputFeatures)" where
  "to_two_pair_feature ex tk max_seq_length =
     (case text_pair_to_feature (text_a ex) None tk max_seq_length of
        Inl e \<Rightarrow> Inl e
      | Inr (a1, a2, a3) \<Rightarrow>
     (case text_pair_to_feature (text_b ex) None tk max_seq_length of
        Inl e \<Rightarrow> Inl e
      | Inr (b1, b2, b3) \<Rightarrow>
     (case text_pair_to_feature (text_c ex) None tk max_seq_length of
        Inl e \<Rightarrow> Inl e
      | Inr (c1, c2, c3) \<Rightarrow>
          Inr (InputFeatures_init a1 a2 a3, InputFeatures_init b1 b2 b3,
               InputFeatures_init c1 c2 c3))))"

type_synonym feature_tensors = "tensor1 \<times> tensor1 \<times> tensor1"
type_synonym example_tensor = "feature_tensors \<times> feature_tensors \<times> feature_tensors \<times> tensor1"
type_synonym feature_batch = "tensor2 \<times> tensor2 \<times> tensor2"
type_synonym collated_batch = "feature_batch \<times> feature_batch \<times> feature_batch \<times> tensor2"

text \<open>
  Lines 110-118, the body of the loop of \<open>three_pair_collate_fn\<close> for one example: the
  three features, their tensors, and the tensor of the label.
\<close>

definition example_to_tensors ::
  "int \<Rightarrow> tokenizer \<Rightarrow> string \<times> string \<times> string \<times> int \<Rightarrow> error + example_tensor" where
  "example_to_tensors max_len tk ex =
     (case ex of (ta, tb, tc, lab) \<Rightarrow>
     (case to_two_pair_feature \<lparr>text_a = ta, text_b = tb, text_c = tc, label = lab\<rparr> tk max_len of
        Inl e \<Rightarrow> Inl e
      | Inr (a_feature, b_feature, c_feature) \<Rightarrow>
     (case to_tensor a_feature of
        Inl e \<Rightarrow> Inl e
      | Inr a_tensor \<Rightarrow>
     (case to_tensor b_feature of
        Inl e \<Rightarrow> Inl e
      | Inr b_tensor \<Rightarrow>
     (case to_tensor c_feature of
        Inl e \<Rightarrow> Inl e
      | Inr c_tensor \<Rightarrow>
     (case LongTensor [lab] of
        Inl e \<Rightarrow> Inl e
      | Inr label_tensor \<Rightarrow> Inr (a_tensor, b_tensor, c_tensor, label_tensor)))))))"

text \<open>
  The loop of \<open>three_pair_collate_fn\<close>, lines 108-118: one tuple of tensors per example
  of the batch, in order; the first example that fails ends the loop.
\<close>

fun example_tensors :: "int \<Rightarrow> tokenizer \<Rightarrow> (string \<times> string \<times> string \<times> int) list \<Rightarrow> error + example_tensor list" where
  "example_tensors max_len tk [] = Inr []"
| "example_tensors max_len tk (ex # batch) =
     (case example_to_tensors max_len tk ex of
        Inl e \<Rightarrow> Inl e
      | Inr t \<Rightarrow>
          (case example_tensors max_len tk batch of
             Inl e \<Rightarrow> Inl e
           | Inr rest \<Rightarrow> Inr (t # rest)))"

text \<open>
  \<open>torch.stack\<close> along a new first dimension, as \<open>default_collate\<close> uses it on tensors: the
  tensors become the rows of the result; it raises RuntimeError for no tensor and for
  tensors of different sizes.
\<close>

definition stack :: "tensor1 list \<Rightarrow> error + tensor2" where
  "stack ts =
     (case ts of
        [] \<Rightarrow> Inl RuntimeError
      | t # rest \<Rightarrow> if list_all (\<lambda>u. length u = length t) rest then Inr ts else Inl RuntimeError)"

text \<open>
  \<open>default_collate\<close> of \<open>torch.utils.data\<close> on a batch of tuples: it reads \<open>batch[0]\<close>
  (IndexError for an empty batch) and collates the tuples position by position, a tuple of
  tensors again position by position, tensors with \<open>torch.stack\<close>.
\<close>

definition collate_features :: "feature_tensors list \<Rightarrow> error + feature_batch" where
  "collate_features fs =
     (case stack (map (\<lambda>(x, y, z). x) fs) of
        Inl e \<Rightarrow> Inl e
      | Inr xs \<Rightarrow>
     (case stack (map (\<lambda>(x, y, z). y) fs) of
        Inl e \<Rightarrow> Inl e
      | Inr ys \<Rightarrow>
     (case stack (map (\<lambda>(x, y, z). z) fs) of
        Inl e \<Rightarrow> Inl e
      | Inr zs \<Rightarrow> Inr (xs, ys, zs))))"

definition default_collate :: "example_tensor list \<Rightarrow> error + collated_batch" where
  "default_collate batch =
     (if batch = [] then Inl IndexError
      else
     (case collate_features (map (\<lambda>(a, b, c, l). a) batch) of
        Inl e \<Rightarrow> Inl e
      | Inr a \<Rightarrow>
     (case collate_features (map (\<lambda>(a, b, c, l). b) batch) of
        Inl e \<Rightarrow> Inl e
      | Inr b \<Rightarrow>
     (case collate_features (map (\<lambda>(a, b, c, l). c) batch) of
        Inl e \<Rightarrow> Inl e
      | Inr c \<Rightarrow>
     (case stack (map (\<lambda>(a, b, c, l). l) batch) of
        Inl e \<Rightarrow> Inl e
      | Inr l \<Rightarrow> Inr (a, b, c, l))))))"

text \<open>
  \<open>three_pair_collate_fn\<close>, the function that \<open>get_collator(max_len, device, tokenizer)\<close>
  returns, lines 98-122.
\<close>

definition three_pair_collate_fn ::
  "int \<Rightarrow> tokenizer \<Rightarrow> (string \<times> string \<times> string \<times> int) list \<Rightarrow> error + collated_batch" where
  "three_pair_collate_fn max_len tk batch =
     (case example_tensors max_len tk batch of
        Inl e \<Rightarrow> Inl e
      | Inr ts \<Rightarrow> default_collate ts)"

section \<open>The model (\<open>BertForSimMatchModel\<close>, models/bert_esim.py), by tensor shapes\<close>

text \<open>
  The widths of the model are a matter of tensor shapes, not of the numbers in the
  tensors. A tensor is modelled by its shape, the list of its dimensions, and an operation
  of torch by what it does to shapes: the shape of its result, or the RuntimeError it
  raises when the shapes do not fit.
\<close>

type_synonym shape = "nat list"

definition and_then :: "error + 'a \<Rightarrow> ('a \<Rightarrow> error + 'b) \<Rightarrow> error + 'b" where
  "and_then r f = (case r of Inl e \<Rightarrow> Inl e | Inr x \<Rightarrow> f x)"

text \<open>A dimension argument of torch: a negative one counts from the last dimension.\<close>

definition dim_index :: "int \<Rightarrow> shape \<Rightarrow> error + nat" where
  "dim_index d s =
     (if 0 \<le> d \<and> d < int (length s) then Inr (nat d)
      else if d < 0 \<and> - int (length s) \<le> d then Inr (nat (int (length s) + d))
      else Inl IndexError)"

text \<open>
  Elementwise operations (\<open>-\<close>, \<open>*\<close>, \<open>/\<close>) broadcast their operands: the shapes are aligned
  at the last dimension, and two aligned dimensions must be equal or one of them 1.
\<close>

fun broadcast_rev :: "shape \<Rightarrow> shape \<Rightarrow> error + shape" where
  "broadcast_rev [] ys = Inr ys"
| "broadcast_rev (x # xs) [] = Inr (x # xs)"
| "broadcast_rev (x # xs) (y # ys) =
     (if x = y \<or> y = 1 then and_then (broadcast_rev xs ys) (\<lambda>r. Inr (x # r))
      else if x = 1 then and_then (broadcast_rev xs ys) (\<lambda>r. Inr (y # r))
      else Inl RuntimeError)"

definition broadcast :: "shape \<Rightarrow> shape \<Rightarrow> error + shape" where
  "broadcast s t = and_then (broadcast_rev (rev s) (rev t)) (\<lambda>r. Inr (rev r))"

text \<open>
  \<open>torch.cat(tensors, dim)\<close>: the tensors agree in every dimension but \<open>dim\<close>, where the
  sizes add up.
\<close>

definition cat :: "shape list \<Rightarrow> int \<Rightarrow> error + shape" where
  "cat ss d =
     (case ss of
        [] \<Rightarrow> Inl RuntimeError
      | s # rest \<Rightarrow>
          and_then (dim_index d s) (\<lambda>k.
            if list_all (\<lambda>t. length t = length s \<and> t[k := 0] = s[k := 0]) rest
            then Inr (s[k := sum_list (map (\<lambda>t. t ! k) ss)])
            else Inl RuntimeError))"

text \<open>
  A reduction over one dimension (\<open>sum(dim=d)\<close>, \<open>max(dim=d)\<close>) removes the dimension;
  with \<open>keepdim=True\<close> it keeps it with size 1.
\<close>

definition reduce_dim :: "shape \<Rightarrow> int \<Rightarrow> error + shape" where
  "reduce_dim s d = and_then (dim_index d s) (\<lambda>k. Inr (take k s @ drop (Suc k) s))"

definition reduce_keepdim :: "shape \<Rightarrow> int \<Rightarrow> error + shape" where
  "reduce_keepdim s d = and_then (dim_index d s) (\<lambda>k. Inr (s[k := 1]))"

text \<open>\<open>unsqueeze(1)\<close> puts a dimension of size 1 at position 1; \<open>transpose(2, 1)\<close> swaps dimensions 1 and 2.\<close>

definition unsqueeze1 :: "shape \<Rightarrow> error + shape" where
  "unsqueeze1 s = (if 1 \<le> length s then Inr (take 1 s @ [1] @ drop 1 s) else Inl IndexError)"

definition transpose21 :: "shape \<Rightarrow> error + shape" where
  "transpose21 s = (if 3 \<le> length s then Inr (s[1 := s ! 2, 2 := s ! 1]) else Inl IndexError)"

text \<open>
  The layers of \<open>torch.nn\<close> that the model puts in an \<open>nn.Sequential\<close>. \<open>Linear i out\<close> is
  \<open>nn.Linear(i, out)\<close>: it maps a last dimension of size \<open>i\<close> to one of size \<open>out\<close>. The
  others keep the shape.
\<close>

datatype layer = Dropout | Linear nat nat | Tanh | ReLU

fun layer_shape :: "layer \<Rightarrow> shape \<Rightarrow> error + shape" where
  "layer_shape (Linear i out) s =
     (if s \<noteq> [] \<and> last s = i then Inr (butlast s @ [out]) else Inl RuntimeError)"
| "layer_shape Dropout s = Inr s"
| "layer_shape Tanh s = Inr s"
| "layer_shape ReLU s = Inr s"

fun sequential_shape :: "layer list \<Rightarrow> shape \<Rightarrow> error + shape" where
  "sequential_shape [] s = Inr s"
| "sequential_shape (l # ls) s = and_then (layer_shape l s) (sequential_shape ls)"

text \<open>
  Modelled from the spec: \<open>Seq2SeqEncoder\<close> (models/esim/layers.py is not among the
  sources), constructed as \<open>Seq2SeqEncoder(nn.LSTM, input_size, hidden_size,
  bidirectional=...)\<close>. The spec calls it a length-aware bidirectional recurrent encoder
  that encodes each embedded sequence; an LSTM with both directions gives, for every
  position, the hidden states of the two directions side by side. On shapes: a batch of
  sequences of vectors of size \<open>input_size\<close>, with one length per sequence, becomes a
  batch of sequences of vectors of size \<open>hidden_size\<close> times the number of directions.
\<close>

datatype seq2seq_encoder = Seq2SeqEncoder nat nat bool

fun seq2seq_shape :: "seq2seq_encoder \<Rightarrow> shape \<Rightarrow> shape \<Rightarrow> error + shape" where
  "seq2seq_shape (Seq2SeqEncoder input_size hidden bidirectional) s lengths =
     (case s of
        [batch, len, width] \<Rightarrow>
          if width = input_size \<and> lengths = [batch]
          then Inr [batch, len, (if bidirectional then 2 else 1) * hidden]
          else Inl RuntimeError
      | _ \<Rightarrow> Inl RuntimeError)"

text \<open>
  Modelled from the spec: \<open>SoftmaxAttention\<close> (models/esim/layers.py is not among the
  sources). The spec: for each side, a soft alignment against the other side, giving
  attended representations for A (aligned against B) and for B (aligned against A). On
  shapes: each attended tensor has the shape of its own side's encoded tensor; the two
  sides have the same batch size and the same width, and each mask has the shape of its
  side without the width.
\<close>

definition attention_shape :: "shape \<Rightarrow> shape \<Rightarrow> shape \<Rightarrow> shape \<Rightarrow> error + (shape \<times> shape)" where
  "attention_shape a a_mask b b_mask =
     (case (a, b) of
        ([batch_a, len_a, width_a], [batch_b, len_b, width_b]) \<Rightarrow>
          if batch_a = batch_b \<and> width_a = width_b \<and> a_mask = [batch_a, len_a] \<and>
             b_mask = [batch_b, len_b]
          then Inr (a, b) else Inl RuntimeError
      | _ \<Rightarrow> Inl RuntimeError)"

text \<open>
  Modelled from the spec: \<open>replace_masked\<close> (models/esim/utils.py is not among the
  sources). The spec: padded positions are replaced by a large negative value before
  the max. On shapes: the result has the shape of the tensor; the mask has the shape of
  the tensor without the width.
\<close>

definition replace_masked_shape :: "shape \<Rightarrow> shape \<Rightarrow> error + shape" where
  "replace_masked_shape t m =
     (case t of
        [batch, len, width] \<Rightarrow> if m = [batch, len] then Inr t else Inl RuntimeError
      | _ \<Rightarrow> Inl RuntimeError)"

text \<open>
  The configuration: of \<open>config\<close> only \<open>hidden_size\<close> bears on shapes
  (\<open>hidden_dropout_prob\<close> does not).
\<close>

record BertConfig =
  hidden_size :: nat

text \<open>
  The submodules that \<open>__init__\<close> builds (lines 16-43) and \<open>forward\<close> uses. \<open>_embedding\<close>
  is the word embedding table of the BERT backbone, whose vectors have size
  \<open>config.hidden_size\<close>.
\<close>

record BertForSimMatchModel =
  embedding_dim :: nat
  encoding :: seq2seq_encoder
  projection :: "layer list"
  composition :: seq2seq_encoder
  classification :: "layer list"

definition model_init :: "BertConfig \<Rightarrow> BertForSimMatchModel" where
  "model_init config =
     \<lparr>embedding_dim = hidden_size config,
      encoding = Seq2SeqEncoder (hidden_size config) (hidden_size config) True,
      projection = [Linear (4 * 2 * hidden_size config) (hidden_size config), ReLU],
      composition = Seq2SeqEncoder (hidden_size config) (hidden_size config) True,
      classification =
        [Dropout, Linear (4 * 2 * hidden_size config) (hidden_size config), Tanh, Dropout,
         Linear (hidden_size config) 2]\<rparr>"

text \<open>
  One side of \<open>siamese\<close> up to the pooling, lines 88-120 for side A (side B is the same
  with the roles exchanged): the enhancement, the projection, the composition, the masked
  average and the masked max.
\<close>

definition enhance_shape :: "shape \<Rightarrow> shape \<Rightarrow> error + shape" where
  "enhance_shape encoded attended =
     and_then (broadcast encoded attended) (\<lambda>difference.
     and_then (broadcast encoded attended) (\<lambda>product.
     cat [encoded, attended, difference, product] (- 1)))"

definition masked_avg_shape :: "shape \<Rightarrow> shape \<Rightarrow> error + shape" where
  "masked_avg_shape v m =
     and_then (unsqueeze1 m) (\<lambda>m1.
     and_then (transpose21 m1) (\<lambda>m2.
     and_then (broadcast v m2) (\<lambda>masked.
     and_then (reduce_dim masked 1) (\<lambda>num.
     and_then (reduce_keepdim m 1) (\<lambda>den.
     broadcast num den)))))"

definition masked_max_shape :: "shape \<Rightarrow> shape \<Rightarrow> error + shape" where
  "masked_max_shape v m = and_then (replace_masked_shape v m) (\<lambda>r. reduce_dim r 1)"

text \<open>\<open>siamese\<close>, lines 83-124.\<close>

definition siamese_shape ::
  "BertForSimMatchModel \<Rightarrow> shape \<Rightarrow> shape \<Rightarrow> shape \<Rightarrow> shape \<Rightarrow> error + shape" where
  "siamese_shape model a_output b_output a_mask b_mask =
     and_then (reduce_dim a_mask (- 1)) (\<lambda>a_length.
     and_then (reduce_dim b_mask (- 1)) (\<lambda>b_length.
     and_then (seq2seq_shape (encoding model) a_output a_length) (\<lambda>a_output.
     and_then (seq2seq_shape (encoding model) b_output b_length) (\<lambda>b_output.
     and_then (attention_shape a_output a_mask b_output b_mask) (\<lambda>(attended_a, attended_b).
     and_then (enhance_shape a_output attended_a) (\<lambda>enhanced_a.
     and_then (enhance_shape b_output attended_b) (\<lambda>enhanced_b.
     and_then (sequential_shape (projection model) enhanced_a) (\<lambda>projected_a.
     and_then (sequential_shape (projection model) enhanced_b) (\<lambda>projected_b.
     and_then (seq2seq_shape (composition model) projected_a a_length) (\<lambda>v_ai.
     and_then (seq2seq_shape (composition model) projected_b b_length) (\<lambda>v_bj.
     and_then (masked_avg_shape v_ai a_mask) (\<lambda>v_a_avg.
     and_then (masked_avg_shape v_bj b_mask) (\<lambda>v_b_avg.
     and_then (masked_max_shape v_ai a_mask) (\<lambda>v_a_max.
     and_then (masked_max_shape v_bj b_mask) (\<lambda>v_b_max.
     cat [v_a_avg, v_a_max, v_b_avg, v_b_max] 1)))))))))))))))"

section \<open>\<open>forward\<close> and its dispatch on \<open>mode\<close> (models/bert_esim.py)\<close>

text \<open>
  \<open>forward\<close> is written over the operations it calls, for any representation \<open>'t\<close> of
  tensors: the float conversion of a mask, the embedding table, \<open>siamese\<close>, the
  subtraction, the layers of the classification head, the softmax over dimension 1, the
  two \<open>view\<close> calls and the cross entropy loss. Each may raise. The two \<open>nn.Dropout\<close>
  layers of the head are random in training mode: \<open>dropout_mask\<close> is what such a layer
  does to a tensor for one random draw \<open>'r\<close> of the entries it zeroes.
\<close>

record ('t, 'r) tensor_ops =
  to_float :: "'t \<Rightarrow> error + 't"
  embedding :: "'t \<Rightarrow> error + 't"
  siamese :: "'t \<Rightarrow> 't \<Rightarrow> 't \<Rightarrow> 't \<Rightarrow> error + 't"
  subtract :: "'t \<Rightarrow> 't \<Rightarrow> error + 't"
  dropout_mask :: "'r \<Rightarrow> 't \<Rightarrow> error + 't"
  head_linear1 :: "'t \<Rightarrow> error + 't"
  head_tanh :: "'t \<Rightarrow> error + 't"
  head_linear2 :: "'t \<Rightarrow> error + 't"
  softmax_dim1 :: "'t \<Rightarrow> error + 't"
  view_pairs :: "'t \<Rightarrow> error + 't"
  view_flat :: "'t \<Rightarrow> error + 't"
  cross_entropy :: "'t \<Rightarrow> 't \<Rightarrow> error + 't"

text \<open>What \<open>forward\<close> returns: a tensor, a tuple of three tensors, or \<open>None\<close>.\<close>

datatype 't forward_result = ReturnNone | ReturnTensor 't | ReturnTriple 't 't 't

text \<open>
  \<open>nn.Dropout\<close>: in training mode (\<open>self.training\<close>, set by \<open>train()\<close> and \<open>eval()\<close>) it
  zeroes entries at random and rescales the others; in evaluation mode it returns its
  input.
\<close>

definition nn_dropout :: "('t, 'r) tensor_ops \<Rightarrow> bool \<Rightarrow> 'r \<Rightarrow> 't \<Rightarrow> error + 't" where
  "nn_dropout ops training draw x = (if training then dropout_mask ops draw x else Inr x)"

text \<open>
  \<open>self._classification\<close>, lines 38-42 and 66: dropout, linear, tanh, dropout, linear, in
  this order. \<open>draws\<close> holds the random draws of the two dropout layers for this call.
\<close>

definition classification_head ::
  "('t, 'r) tensor_ops \<Rightarrow> bool \<Rightarrow> 'r \<times> 'r \<Rightarrow> 't \<Rightarrow> error + 't" where
  "classification_head ops training draws x =
     and_then (nn_dropout ops training (fst draws) x) (\<lambda>x1.
     and_then (head_linear1 ops x1) (\<lambda>x2.
     and_then (head_tanh ops x2) (\<lambda>x3.
     and_then (nn_dropout ops training (snd draws) x3) (\<lambda>x4.
     head_linear2 ops x4))))"

text \<open>
  Lines 46-66, the part of \<open>forward\<close> before the dispatch, the same for every mode. Each
  of \<open>a\<close>, \<open>b\<close>, \<open>c\<close> is a tuple of three tensors; \<open>a[0]\<close> is its first and \<open>a[1]\<close> its
  second component.
\<close>

definition forward_output ::
  "('t, 'r) tensor_ops \<Rightarrow> bool \<Rightarrow> 'r \<times> 'r \<Rightarrow> 't \<times> 't \<times> 't \<Rightarrow> 't \<times> 't \<times> 't \<Rightarrow> 't \<times> 't \<times> 't \<Rightarrow>
     error + 't" where
  "forward_output ops training draws a b c =
     and_then (to_float ops (fst (snd a))) (\<lambda>a_mask.
     and_then (to_float ops (fst (snd b))) (\<lambda>b_mask.
     and_then (to_float ops (fst (snd c))) (\<lambda>c_mask.
     and_then (embedding ops (fst a)) (\<lambda>a_output.
     and_then (embedding ops (fst b)) (\<lambda>b_output.
     and_then (embedding ops (fst c)) (\<lambda>c_output.
     and_then (siamese ops a_output b_output a_mask b_mask) (\<lambda>v_ab.
     and_then (siamese ops a_output c_output a_mask c_mask) (\<lambda>v_ac.
     and_then (subtract ops v_ab v_ac) (\<lambda>subtraction.
     classification_head ops training draws subtraction)))))))))"

text \<open>
  \<open>loss_fct(output.view(-1, 2), labels.view(-1))\<close>, lines 74-75 and 79-80: \<open>labels\<close> is
  \<open>None\<close> by default, and \<open>None\<close> has no \<open>view\<close>.
\<close>

definition loss_of :: "('t, 'r) tensor_ops \<Rightarrow> 't \<Rightarrow> 't option \<Rightarrow> error + 't" where
  "loss_of ops output labels =
     and_then (view_pairs ops output) (\<lambda>logits.
       case labels of
         None \<Rightarrow> Inl AttributeError
       | Some l \<Rightarrow> and_then (view_flat ops l) (\<lambda>target. cross_entropy ops logits target))"

text \<open>
  \<open>forward\<close>, lines 45-81, for a module in training mode or not and the random draws of
  its dropout layers in this call. A function body that ends without \<open>return\<close> returns
  \<open>None\<close>.
\<close>

definition forward ::
  "('t, 'r) tensor_ops \<Rightarrow> bool \<Rightarrow> 'r \<times> 'r \<Rightarrow> 't \<times> 't \<times> 't \<Rightarrow> 't \<times> 't \<times> 't \<Rightarrow> 't \<times> 't \<times> 't \<Rightarrow>
     't option \<Rightarrow> string \<Rightarrow> error + 't forward_result" where
  "forward ops training draws a b c labels mode =
     and_then (forward_output ops training draws a b c) (\<lambda>output.
       if mode = ''prob'' then
         and_then (softmax_dim1 ops output) (\<lambda>prob. Inr (ReturnTensor prob))
       else if mode = ''logits'' then Inr (ReturnTensor output)
       else if mode = ''loss'' then
         and_then (loss_of ops output labels) (\<lambda>loss. Inr (ReturnTensor loss))
       else if mode = ''evaluate'' then
         and_then (softmax_dim1 ops output) (\<lambda>prob.
         and_then (loss_of ops output labels) (\<lambda>loss. Inr (ReturnTriple output prob loss)))
       else Inr ReturnNone)"

text \<open>
  The operations on shapes, for a model: \<open>nn.Embedding\<close> appends the size of its vectors
  to the shape of the ids; dropout keeps the shape whatever it draws; the layers of the
  head are those of the model's \<open>classification\<close> (positions 1, 2 and 4 of the
  \<open>nn.Sequential\<close>); the softmax over dimension 1 needs that dimension; \<open>view(-1, 2)\<close>
  needs an even number of entries; the cross entropy takes one row of logits per target,
  raises ValueError otherwise, and gives a scalar.
\<close>

definition shape_ops :: "BertForSimMatchModel \<Rightarrow> (shape, unit) tensor_ops" where
  "shape_ops model =
     \<lparr>to_float = Inr,
      embedding = (\<lambda>ids. Inr (ids @ [embedding_dim model])),
      siamese = siamese_shape model,
      subtract = broadcast,
      dropout_mask = (\<lambda>draw s. Inr s),
      head_linear1 = layer_shape (classification model ! 1),
      head_tanh = layer_shape (classification model ! 2),
      head_linear2 = layer_shape (classification model ! 4),
      softmax_dim1 = (\<lambda>s. if 2 \<le> length s then Inr s else Inl IndexError),
      view_pairs = (\<lambda>s. if even (prod_list s) then Inr [prod_list s div 2, 2] else Inl RuntimeError),
      view_flat = (\<lambda>s. Inr [prod_list s]),
      cross_entropy = (\<lambda>logits target.
         if length logits = 2 \<and> target = [hd logits] then Inr [] else Inl ValueError)\<rparr>"

section \<open>The classification head on numbers\<close>

text \<open>
  The layers of the head on real numbers, for a batch of vectors (a matrix, one row per
  example). \<open>nn.Dropout(p)\<close> in training mode zeroes the entries that the draw does not
  keep and divides the others by \<open>1 - p\<close>; the draw says for every row and column
  whether the entry is kept.
\<close>

type_synonym matrix = "real list list"

definition dropout_values :: "real \<Rightarrow> (nat \<Rightarrow> nat \<Rightarrow> bool) \<Rightarrow> matrix \<Rightarrow> matrix" where
  "dropout_values p keep x =
     map (\<lambda>(i, row). map (\<lambda>(j, v). if keep i j then v / (1 - p) else 0) (enumerate 0 row))
       (enumerate 0 x)"

text \<open>
  \<open>nn.Linear\<close> with the weight matrix \<open>weight\<close> (one row per output feature) and the
  vector \<open>bias\<close>: every row \<open>v\<close> of the batch becomes \<open>weight v + bias\<close>; a row whose
  length is not that of the rows of \<open>weight\<close> raises RuntimeError.
\<close>

definition linear_values :: "real list list \<Rightarrow> real list \<Rightarrow> matrix \<Rightarrow> error + matrix" where
  "linear_values weight bias x =
     (if list_all (\<lambda>row. list_all (\<lambda>w. length w = length row) weight) x
      then Inr (map (\<lambda>row. map2 (\<lambda>w b. sum_list (map2 (*) w row) + b) weight bias) x)
      else Inl RuntimeError)"

text \<open>The softmax over dimension 1 of a matrix: row by row.\<close>

definition softmax_rows :: "matrix \<Rightarrow> matrix" where
  "softmax_rows x = map (\<lambda>row. map (\<lambda>v. exp v / sum_list (map exp row)) row) x"

text \<open>
  Operations on matrices of reals in which the head and the softmax are the real ones,
  for a dropout probability and the weights and biases of the two linear layers. The
  other operations are those of \<open>base\<close>.
\<close>

definition real_head_ops ::
  "real \<Rightarrow> real list list \<Rightarrow> real list \<Rightarrow> real list list \<Rightarrow> real list \<Rightarrow>
     (matrix, nat \<Rightarrow> nat \<Rightarrow> bool) tensor_ops \<Rightarrow> (matrix, nat \<Rightarrow> nat \<Rightarrow> bool) tensor_ops" where
  "real_head_ops p weight1 bias1 weight2 bias2 base =
     base\<lparr>dropout_mask := (\<lambda>keep x. Inr (dropout_values p keep x)),
          head_linear1 := linear_values weight1 bias1,
          head_tanh := (\<lambda>x. Inr (map (map tanh) x)),
          head_linear2 := linear_values weight2 bias2,
          softmax_dim1 := (\<lambda>x. Inr (softmax_rows x))\<rparr>"

text \<open>
  A stand-in for the operations whose code or weights are not among the sources (the
  embedding table, the encoder of \<open>siamese\<close>, the loss), for evaluating the head on a
  concrete batch: each passes its tensor through, \<open>siamese\<close> its second sequence, and the
  subtraction subtracts entry by entry.
\<close>

definition stand_in_ops :: "(matrix, nat \<Rightarrow> nat \<Rightarrow> bool) tensor_ops" where
  "stand_in_ops =
     \<lparr>to_float = Inr,
      embedding = Inr,
      siamese = (\<lambda>a_output b_output a_mask b_mask. Inr b_output),
      subtract = (\<lambda>x y. Inr (map2 (map2 (-)) x y)),
      dropout_mask = (\<lambda>keep x. Inr x),
      head_linear1 = Inr,
      head_tanh = Inr,
      head_linear2 = Inr,
      softmax_dim1 = Inr,
      view_pairs = Inr,
      view_flat = Inr,
      cross_entropy = (\<lambda>logits target. Inr logits)\<rparr>"

section \<open>Properties of paired truncation\<close>

lemma pair_length_step: "pair_length (spec_truncate_step p) = pair_length p - 1"
  by (cases p) auto

lemma pair_length_steps: "pair_length ((spec_truncate_step ^^ k) p) = pair_length p - k"
  by (induction k) (auto simp: pair_length_step)


lemma truncate_within: "int (length a + length b) \<le> m \<Longrightarrow> truncate_seq_pair a b m = Inr (a, b)"
  by (simp add: truncate_seq_pair.simps)

lemma truncate_pop_a:
  "\<not> int (length (x # rest) + length b) \<le> m \<Longrightarrow> length (x # rest) > length b \<Longrightarrow>
   truncate_seq_pair (x # rest) b m = truncate_seq_pair rest b m"
  by (subst truncate_seq_pair.simps) simp

lemma truncate_pop_b:
  "\<not> int (length a + length (y # rest)) \<le> m \<Longrightarrow> \<not> length a > length (y # rest) \<Longrightarrow>
   truncate_seq_pair a (y # rest) m = truncate_seq_pair a rest m"
  by (subst truncate_seq_pair.simps) simp

lemma truncate_seq_pair_steps:
  "0 \<le> m \<Longrightarrow> truncate_seq_pair a b m =
     Inr ((spec_truncate_step ^^ (length a + length b - nat m)) (a, b))"
proof (induction a b m rule: truncate_seq_pair.induct)
  case (1 a b m)
  show ?case
  proof (cases "int (length a + length b) \<le> m")
    case True
    then have "length a + length b - nat m = 0" by linarith
    with True show ?thesis by (simp add: truncate_within)
  next
    case over: False
    then have n: "length a + length b - nat m = Suc (length a + length b - 1 - nat m)"
      using \<open>0 \<le> m\<close> by linarith
    show ?thesis
    proof (cases "length a > length b")
      case True
      then obtain x rest where a: "a = x # rest" by (cases a) auto
      have "truncate_seq_pair rest b m =
          Inr ((spec_truncate_step ^^ (length rest + length b - nat m)) (rest, b))"
        using "1.IH"(1)[OF over True a] \<open>0 \<le> m\<close> by simp
      moreover have "truncate_seq_pair a b m = truncate_seq_pair rest b m"
        unfolding a by (rule truncate_pop_a) (use over True a in simp_all)
      moreover have "spec_truncate_step (a, b) = (rest, b)" using True a by simp
      moreover have "(spec_truncate_step ^^ (length a + length b - nat m)) (a, b) =
          (spec_truncate_step ^^ (length a + length b - 1 - nat m)) (spec_truncate_step (a, b))"
        unfolding n by (simp only: funpow_Suc_right o_apply)
      ultimately show ?thesis using a by simp
    next
      case False
      with over \<open>0 \<le> m\<close> have "b \<noteq> []" by auto
      then obtain y rest where b: "b = y # rest" by (cases b) auto
      have "truncate_seq_pair a rest m =
          Inr ((spec_truncate_step ^^ (length a + length rest - nat m)) (a, rest))"
        using "1.IH"(2)[OF over False b] \<open>0 \<le> m\<close> by simp
      moreover have "truncate_seq_pair a b m = truncate_seq_pair a rest m"
        unfolding b by (rule truncate_pop_b) (use over False b in simp_all)
      moreover have "spec_truncate_step (a, b) = (a, rest)" using False b by simp
      moreover have "(spec_truncate_step ^^ (length a + length b - nat m)) (a, b) =
          (spec_truncate_step ^^ (length a + length b - 1 - nat m)) (spec_truncate_step (a, b))"
        unfolding n by (simp only: funpow_Suc_right o_apply)
      ultimately show ?thesis using b by simp
    qed
  qed
qed


text \<open>
  With a budget that is not negative the loop always breaks, and the pair it leaves
  fits the budget.
\<close>

lemma truncate_seq_pair_total:
  assumes "0 \<le> m"
  shows "\<exists>ta tb. truncate_seq_pair a b m = Inr (ta, tb) \<and> int (length ta + length tb) \<le> m"
proof -
  obtain ta tb where p: "(spec_truncate_step ^^ (length a + length b - nat m)) (a, b) = (ta, tb)"
    by (cases "(spec_truncate_step ^^ (length a + length b - nat m)) (a, b)")
  have "pair_length (ta, tb) = pair_length (a, b) - (length a + length b - nat m)"
    using pair_length_steps[of "length a + length b - nat m" "(a, b)"] p by simp
  then have "int (length ta + length tb) \<le> m" using assms by simp
  with truncate_seq_pair_steps[OF assms, of a b] p show ?thesis by simp
qed

text \<open>
  Claim C1, as amended. For every pair of token sequences and every budget
  \<open>max_length \<ge> 0\<close> (the budget passed by the feature builder is \<open>max_seq_length - 3\<close>, so
  this is \<open>max_seq_length \<ge> 3\<close>), the loop returns the pair reached from
  \<open>(tokens_a, tokens_b)\<close> by \<open>n\<close> rounds of the spec's step (one token removed from the
  front of the longer sequence, from \<open>tokens_b\<close> when the lengths are equal), where
  \<open>n\<close> is the first round count at which the total length is within the budget: the
  total is within the budget after \<open>n\<close> rounds and exceeds it after every smaller number
  of rounds.
\<close>

theorem truncate_seq_pair_stops_exactly:
  assumes "0 \<le> max_length"
  shows "truncate_seq_pair tokens_a tokens_b max_length =
           Inr ((spec_truncate_step ^^ (length tokens_a + length tokens_b - nat max_length))
                  (tokens_a, tokens_b)) \<and>
         int (pair_length ((spec_truncate_step ^^ (length tokens_a + length tokens_b - nat max_length))
                  (tokens_a, tokens_b))) \<le> max_length \<and>
         (\<forall>k < length tokens_a + length tokens_b - nat max_length.
            max_length < int (pair_length ((spec_truncate_step ^^ k) (tokens_a, tokens_b))))"
proof (intro conjI allI impI)
  show "truncate_seq_pair tokens_a tokens_b max_length =
      Inr ((spec_truncate_step ^^ (length tokens_a + length tokens_b - nat max_length))
             (tokens_a, tokens_b))"
    by (rule truncate_seq_pair_steps[OF assms])
  show "int (pair_length ((spec_truncate_step ^^ (length tokens_a + length tokens_b - nat max_length))
                  (tokens_a, tokens_b))) \<le> max_length"
    using assms by (simp add: pair_length_steps)
  fix k assume "k < length tokens_a + length tokens_b - nat max_length"
  then show "max_length < int (pair_length ((spec_truncate_step ^^ k) (tokens_a, tokens_b)))"
    using assms by (simp add: pair_length_steps)
qed

text \<open>
  Two sequences of three tokens and the budget 5: one token goes, the first of
  \<open>tokens_b\<close>.
\<close>

theorem truncate_seq_pair_stops_exactly_witness:
  "(0::int) \<le> 5 \<and>
   truncate_seq_pair [''a1'', ''a2'', ''a3''] [''b1'', ''b2'', ''b3''] 5 =
     Inr ([''a1'', ''a2'', ''a3''], [''b2'', ''b3''])"
  using truncate_seq_pair_stops_exactly[of 5 "[''a1'', ''a2'', ''a3'']" "[''b1'', ''b2'', ''b3'']"]
  by simp

text \<open>
  Claim C1 as stated, for every budget, fails for a negative budget: with
  \<open>max_seq_length = 2\<close> the budget is \<open>-1\<close>, the loop empties both sequences and the next
  \<open>tokens_b.pop(0)\<close> raises IndexError; the loop never stops in a state within the budget.
\<close>

theorem truncate_seq_pair_negative_budget_counterexample:
  "truncate_seq_pair [''a1''] [''b1''] (2 - 3) = Inl IndexError"
  by (simp add: truncate_seq_pair.simps)

section \<open>Properties of the feature builder\<close>

lemma length_truncate_single:
  "2 \<le> m \<Longrightarrow> int (length (truncate_single ts m)) = min (int (length ts)) (m - 2)"
  by (auto simp: truncate_single_def)

lemma assemble_feature_ok:
  assumes lp: "\<And>tokens. length (convert_tokens_to_ids tk tokens) = length tokens"
    and fit: "int (length tokens_a) + 2 +
        (case tokens_b of None \<Rightarrow> 0 | Some tb \<Rightarrow> if tb = [] then 0 else int (length tb) + 1)
        \<le> max_seq_length"
  shows "\<exists>input_ids segment_ids input_mask.
      assemble_feature tokens_a tokens_b tk max_seq_length = Inr (input_ids, segment_ids, input_mask) \<and>
      int (length input_ids) = max_seq_length \<and>
      int (length segment_ids) = max_seq_length \<and>
      int (length input_mask) = max_seq_length \<and>
      sum_list input_mask = int (length tokens_a) + 2 +
        (case tokens_b of None \<Rightarrow> 0 | Some tb \<Rightarrow> if tb = [] then 0 else int (length tb) + 1)"
  using fit by (cases tokens_b) (auto simp: assemble_feature_def Let_def lp sum_list_replicate)


text \<open>
  Claim C2. For every text, every optional secondary text and every
  \<open>max_seq_length \<ge> 3\<close>, with a tokenizer whose \<open>convert_tokens_to_ids\<close> returns one id
  per token, \<open>_text_pair_to_feature\<close> returns (no assertion fires, nothing is raised)
  and \<open>input_ids\<close>, \<open>input_mask\<close> and \<open>segment_ids\<close> each have length exactly
  \<open>max_seq_length\<close>.
\<close>

theorem text_pair_to_feature_lengths:
  assumes "3 \<le> max_seq_length"
    and "\<And>tokens. length (convert_tokens_to_ids tk tokens) = length tokens"
  shows "\<exists>input_ids segment_ids input_mask.
      text_pair_to_feature text secondary tk max_seq_length = Inr (input_ids, segment_ids, input_mask) \<and>
      int (length input_ids) = max_seq_length \<and>
      int (length input_mask) = max_seq_length \<and>
      int (length segment_ids) = max_seq_length"
proof -
  have single: ?thesis
    if "truncate_tokens text secondary tk max_seq_length =
          Inr (truncate_single (tokenize tk text) max_seq_length, None)"
  proof -
    have "int (length (truncate_single (tokenize tk text) max_seq_length)) + 2 +
        (case None :: string list option of None \<Rightarrow> 0
         | Some tb \<Rightarrow> if tb = [] then 0 else int (length tb) + 1) \<le> max_seq_length"
      using assms(1) by (simp add: length_truncate_single)
    from assemble_feature_ok[OF assms(2) this] that show ?thesis
      by (auto simp: text_pair_to_feature_def)
  qed
  show ?thesis
  proof (cases "\<exists>t. secondary = Some t \<and> t \<noteq> []")
    case False
    then have "truncate_tokens text secondary tk max_seq_length =
          Inr (truncate_single (tokenize tk text) max_seq_length, None)"
      by (cases secondary) (auto simp: truncate_tokens_def Let_def)
    then show ?thesis by (rule single)
  next
    case True
    then obtain t where t: "secondary = Some t" "t \<noteq> []" by blast
    from assms(1) have "0 \<le> max_seq_length - 3" by simp
    from truncate_seq_pair_total[OF this, of "tokenize tk text" "tokenize tk t"]
    obtain ta tb where tr: "truncate_seq_pair (tokenize tk text) (tokenize tk t) (max_seq_length - 3) = Inr (ta, tb)"
      and le: "int (length ta + length tb) \<le> max_seq_length - 3" by blast
    have tt: "truncate_tokens text secondary tk max_seq_length = Inr (ta, Some tb)"
      using t tr by (simp add: truncate_tokens_def Let_def)
    have "int (length ta) + 2 +
        (case Some tb of None \<Rightarrow> 0
         | Some tb \<Rightarrow> if tb = [] then 0 else int (length tb) + 1) \<le> max_seq_length"
      using le by simp
    from assemble_feature_ok[OF assms(2) this] tt show ?thesis
      by (auto simp: text_pair_to_feature_def)
  qed
qed

lemma whitespace_tokenizer_length:
  "length (convert_tokens_to_ids whitespace_tokenizer tokens) = length tokens"
  by (simp add: whitespace_tokenizer_def)

theorem text_pair_to_feature_lengths_witness:
  "(3::int) \<le> 8 \<and>
   (\<forall>tokens. length (convert_tokens_to_ids whitespace_tokenizer tokens) = length tokens) \<and>
   (\<exists>input_ids segment_ids input_mask.
      text_pair_to_feature ''cat sat on the mat'' (Some ''dog ran far away'') whitespace_tokenizer 8 =
        Inr (input_ids, segment_ids, input_mask) \<and>
      int (length input_ids) = 8 \<and> int (length input_mask) = 8 \<and> int (length segment_ids) = 8)"
  using text_pair_to_feature_lengths[of 8 whitespace_tokenizer "''cat sat on the mat''" "Some ''dog ran far away''"]
    whitespace_tokenizer_length
  by simp

text \<open>
  Claim C3 as stated fails: for the text \<open>cat sat\<close> (two tokens) and
  \<open>max_seq_length = 8\<close> the mask has four ones, for \<open>[CLS]\<close>, the two tokens and
  \<open>[SEP]\<close>, and \<open>min 2 (8 - 2) + 1\<close> is three.
\<close>

theorem mask_sum_plus_one_counterexample:
  "text_pair_to_feature ''cat sat'' None whitespace_tokenizer 8 =
     Inr ([5, 3, 3, 5, 0, 0, 0, 0], [0, 0, 0, 0, 0, 0, 0, 0], [1, 1, 1, 1, 0, 0, 0, 0]) \<and>
   sum_list [1, 1, 1, 1, 0, 0, 0, 0 :: int] \<noteq>
     min (int (length (tokenize whitespace_tokenizer ''cat sat''))) (8 - 2) + 1"
  by code_simp

text \<open>
  Claim C3, as amended. For every text and every \<open>max_seq_length \<ge> 3\<close>, with a
  tokenizer whose \<open>convert_tokens_to_ids\<close> returns one id per token, the feature built
  for a single text satisfies
  \<open>sum(input_mask) = min(len(tokenize(text)), max_seq_length - 2) + 2\<close>: the \<open>+ 2\<close>
  counts \<open>[CLS]\<close> and \<open>[SEP]\<close>.
\<close>

theorem mask_sum_single_text:
  assumes "3 \<le> max_seq_length"
    and "\<And>tokens. length (convert_tokens_to_ids tk tokens) = length tokens"
  shows "\<exists>input_ids segment_ids input_mask.
      text_pair_to_feature text None tk max_seq_length = Inr (input_ids, segment_ids, input_mask) \<and>
      sum_list input_mask = min (int (length (tokenize tk text))) (max_seq_length - 2) + 2"
proof -
  have tt: "truncate_tokens text None tk max_seq_length =
      Inr (truncate_single (tokenize tk text) max_seq_length, None)"
    by (simp add: truncate_tokens_def)
  have "int (length (truncate_single (tokenize tk text) max_seq_length)) + 2 +
        (case None :: string list option of None \<Rightarrow> 0
         | Some tb \<Rightarrow> if tb = [] then 0 else int (length tb) + 1) \<le> max_seq_length"
    using assms(1) by (simp add: length_truncate_single)
  from assemble_feature_ok[OF assms(2) this] tt show ?thesis
    using assms(1) by (auto simp: text_pair_to_feature_def length_truncate_single)
qed

theorem mask_sum_single_text_witness:
  "(3::int) \<le> 8 \<and>
   (\<forall>tokens. length (convert_tokens_to_ids whitespace_tokenizer tokens) = length tokens) \<and>
   (\<exists>input_ids segment_ids input_mask.
      text_pair_to_feature ''cat sat'' None whitespace_tokenizer 8 = Inr (input_ids, segment_ids, input_mask) \<and>
      sum_list input_mask = min (int (length (tokenize whitespace_tokenizer ''cat sat''))) (8 - 2) + 2)"
  using mask_sum_single_text[of 8 whitespace_tokenizer "''cat sat''"] whitespace_tokenizer_length
  by simp

section \<open>Properties of the dataset\<close>

lemma list_getitem_nat: "i < length xs \<Longrightarrow> list_getitem xs (int i) = Inr (xs ! i)"
  by (simp add: list_getitem_def)

lemma list_getitem_negative:
  "i < n \<Longrightarrow> length xs = n \<Longrightarrow> list_getitem xs (int i - int n) = Inr (xs ! i)"
  by (simp add: list_getitem_def)

lemma dataset_init_Some_fields:
  assumes "dataset_init texts_a texts_b texts_c (Some labels) = Inr ds" and "labels \<noteq> []"
  shows "text_a_list ds = texts_a" "text_b_list ds = texts_b" "text_c_list ds = texts_c"
    "label_list ds = map (\<lambda>label. if label = Some ''B'' then 0 else 1) labels"
    "length texts_a = length labels" "length texts_b = length labels"
    "length texts_c = length labels"
  using assms by (auto simp: dataset_init_def split: if_splits)

text \<open>
  Without labels (\<open>label_list\<close> absent or empty) every stored label is 1: the placeholder
  \<open>None\<close> is not \<open>"B"\<close>.
\<close>

lemma dataset_init_absent:
  assumes "labels = None \<or> labels = Some []"
    and "length texts_b = length texts_a" and "length texts_c = length texts_a"
  shows "dataset_init texts_a texts_b texts_c labels =
    Inr \<lparr>text_a_list = texts_a, text_b_list = texts_b, text_c_list = texts_c,
         label_list = replicate (length texts_a) 1\<rparr>"
  using assms by (auto simp: dataset_init_def map_replicate)

text \<open>
  The sibling path: a table without the column \<open>label\<close> gets \<open>"B"\<close> in every row, and
  every stored label is 0.
\<close>

lemma from_dataframe_unlabelled:
  "\<exists>ds. from_dataframe (Unlabelled rs) = Inr ds \<and> label_list ds = replicate (length rs) 0"
  by (cases "rs = []") (auto simp: dataset_init_def)

lemma from_dict_list_unlabelled:
  assumes "data \<noteq> []" and "list_all (\<lambda>r. key_label r = None) data"
  shows "\<exists>ds. from_dict_list shuffle data False = Inr ds \<and>
      label_list ds = replicate (length data) 0"
proof -
  have "\<not> list_ex (\<lambda>r. key_label r \<noteq> None) data"
    using assms(2) by (simp add: list_all_iff list_ex_iff)
  then show ?thesis using assms(1)
    by (simp add: from_dict_list_def DataFrame_def dataset_init_def Let_def comp_def
        map_replicate_const)
qed

text \<open>
  Claim C5. For every dataset constructed with a label list whose entries are all
  \<open>"B"\<close> or \<open>"C"\<close>, and every valid index \<open>i\<close> (below the number of examples; the same
  example is also reached by the negative index \<open>i - len\<close>), \<open>__getitem__\<close> returns
  \<open>(text_a, text_b, text_c, numeric_label)\<close> with the texts at that index, the numeric
  label 0 when the given label is \<open>"B"\<close> and 1 when it is \<open>"C"\<close>.
\<close>

theorem dataset_getitem_label:
  assumes "dataset_init texts_a texts_b texts_c (Some labels) = Inr ds"
    and "set labels \<subseteq> {Some ''B'', Some ''C''}"
    and "i < length labels"
  shows "dataset_len ds = length labels \<and>
    (labels ! i = Some ''B'' \<and>
       dataset_getitem ds (int i) = Inr (texts_a ! i, texts_b ! i, texts_c ! i, 0) \<or>
     labels ! i = Some ''C'' \<and>
       dataset_getitem ds (int i) = Inr (texts_a ! i, texts_b ! i, texts_c ! i, 1)) \<and>
    dataset_getitem ds (int i - int (length labels)) = dataset_getitem ds (int i)"
proof -
  from assms(3) have ne: "labels \<noteq> []" by auto
  note f = dataset_init_Some_fields[OF assms(1) ne]
  have lab: "labels ! i = Some ''B'' \<or> labels ! i = Some ''C''"
    using assms(2,3) nth_mem by fastforce
  have len: "dataset_len ds = length labels" by (simp add: dataset_len_def f)
  have get: "dataset_getitem ds (int i) =
      Inr (texts_a ! i, texts_b ! i, texts_c ! i, if labels ! i = Some ''B'' then 0 else 1)"
    using assms(3) by (simp add: dataset_getitem_def f list_getitem_nat)
  have neg: "dataset_getitem ds (int i - int (length labels)) =
      Inr (texts_a ! i, texts_b ! i, texts_c ! i, if labels ! i = Some ''B'' then 0 else 1)"
    using assms(3) by (simp add: dataset_getitem_def f list_getitem_negative)
  from lab len get neg show ?thesis by auto
qed

theorem dataset_getitem_label_witness:
  "dataset_init [''a0'', ''a1''] [''b0'', ''b1''] [''c0'', ''c1''] (Some [Some ''B'', Some ''C'']) =
     Inr \<lparr>text_a_list = [''a0'', ''a1''], text_b_list = [''b0'', ''b1''],
          text_c_list = [''c0'', ''c1''], label_list = [0, 1]\<rparr> \<and>
   set [Some ''B'', Some ''C''] \<subseteq> {Some ''B'', Some ''C''} \<and>
   (1::nat) < length [Some ''B'', Some ''C''] \<and>
   dataset_getitem \<lparr>text_a_list = [''a0'', ''a1''], text_b_list = [''b0'', ''b1''],
          text_c_list = [''c0'', ''c1''], label_list = [0, 1]\<rparr> (int 1) =
     Inr (''a1'', ''b1'', ''c1'', 1)"
proof -
  have i: "dataset_init [''a0'', ''a1''] [''b0'', ''b1''] [''c0'', ''c1''] (Some [Some ''B'', Some ''C'']) =
     Inr \<lparr>text_a_list = [''a0'', ''a1''], text_b_list = [''b0'', ''b1''],
          text_c_list = [''c0'', ''c1''], label_list = [0, 1]\<rparr>"
    by (simp add: dataset_init_def)
  have s: "set [Some ''B'', Some ''C''] \<subseteq> {Some ''B'', Some ''C''}" by simp
  have l: "(1::nat) < length [Some ''B'', Some ''C'']" by simp
  from dataset_getitem_label[OF i s l] i s l show ?thesis by simp
qed

text \<open>
  Claim C4 says that without labels every example defaults to \<open>"B"\<close> and has the
  numeric label 0. The code at \<open>TripletTextDataset(["a"], ["b"], ["c"])\<close>: the dataset is
  built, its only label is 1, and \<open>__getitem__(0)\<close> returns the numeric label 1.
\<close>

theorem dataset_init_without_labels:
  "dataset_init [''a''] [''b''] [''c''] None =
     Inr \<lparr>text_a_list = [''a''], text_b_list = [''b''], text_c_list = [''c''], label_list = [1]\<rparr> \<and>
   dataset_getitem
     \<lparr>text_a_list = [''a''], text_b_list = [''b''], text_c_list = [''c''], label_list = [1]\<rparr> 0 =
     Inr (''a'', ''b'', ''c'', 1)"
  by (simp add: dataset_init_def dataset_getitem_def list_getitem_def)

section \<open>Properties of the augmentation\<close>

lemma set_drop_duplicates: "set (drop_duplicates xs) = set xs"
  by (induction xs rule: drop_duplicates.induct) auto

lemma length_drop_duplicates: "length (drop_duplicates xs) \<le> length xs"
proof (induction xs rule: drop_duplicates.induct)
  case 1
  show ?case by simp
next
  case (2 x xs)
  have "length (filter (\<lambda>y. y \<noteq> x) xs) \<le> length xs" by simp
  with 2 have "length (drop_duplicates (filter (\<lambda>y. y \<noteq> x) xs)) \<le> length xs"
    by (rule le_trans)
  then show ?case by simp
qed

lemma distinct_drop_duplicates: "distinct (drop_duplicates xs)"
  by (induction xs rule: drop_duplicates.induct) (auto simp: set_drop_duplicates)

lemma nrows_frame_rows: "nrows df = length (frame_rows df)"
  by (cases df) simp_all

text \<open>
  Claim C6. For every input table of \<open>N\<close> rows and every random reordering of
  \<open>sample\<close> (a permutation of the rows), \<open>augment\<close> gives at most \<open>6N\<close> rows, no two of
  them equal, and every original row is among them, label included.
\<close>

theorem augment_size_and_originals:
  assumes "\<And>rs. mset (shuffle rs) = mset rs"
  shows "nrows (augment shuffle df) \<le> 6 * nrows df \<and>
         set (frame_rows df) \<subseteq> set (frame_rows (augment shuffle df)) \<and>
         distinct (frame_rows (augment shuffle df))"
proof -
  have len: "length (shuffle rs) = length rs" for rs
    using assms mset_eq_length by blast
  have set: "set (shuffle rs) = set rs" for rs
    using assms mset_eq_setD by blast
  have dist: "distinct (shuffle rs) = distinct rs" for rs
    using assms mset_eq_imp_distinct_iff by blast
  have "nrows (augment shuffle df) \<le> 6 * nrows df"
    unfolding nrows_frame_rows
    by (simp add: augment_def Let_def len)
      (rule order_trans[OF length_drop_duplicates], simp)
  moreover have "set (frame_rows df) \<subseteq> set (frame_rows (augment shuffle df))"
    by (simp add: augment_def Let_def set set_drop_duplicates)
  moreover have "distinct (frame_rows (augment shuffle df))"
    by (simp add: augment_def Let_def dist distinct_drop_duplicates)
  ultimately show ?thesis by blast
qed

theorem augment_size_and_originals_witness:
  "(\<forall>rs :: row list. mset (rev rs) = mset rs) \<and>
   augment rev (Labelled [(Some ''x'', Some ''x'', Some ''z'', Some ''B'')]) =
     Labelled [(Some ''z'', Some ''z'', Some ''x'', Some ''B''),
               (Some ''z'', Some ''x'', Some ''z'', Some ''C''),
               (Some ''x'', Some ''z'', Some ''x'', Some ''C''),
               (Some ''x'', Some ''x'', Some ''z'', Some ''B'')] \<and>
   nrows (augment rev (Labelled [(Some ''x'', Some ''x'', Some ''z'', Some ''B'')]))
     \<le> 6 * nrows (Labelled [(Some ''x'', Some ''x'', Some ''z'', Some ''B'')]) \<and>
   set (frame_rows (Labelled [(Some ''x'', Some ''x'', Some ''z'', Some ''B'')]))
     \<subseteq> set (frame_rows (augment rev (Labelled [(Some ''x'', Some ''x'', Some ''z'', Some ''B'')])))"
  using augment_size_and_originals[of rev "Labelled [(Some ''x'', Some ''x'', Some ''z'', Some ''B'')]"]
  by (simp add: augment_def)

section \<open>Properties of the collator\<close>

lemma in_int64_small: "in_int64 0" "in_int64 1"
  by (simp_all add: in_int64_def)

lemma assemble_feature_single:
  assumes lp: "\<And>tokens. length (convert_tokens_to_ids tk tokens) = length tokens"
    and fit: "int (length tokens_a) + 2 \<le> max_seq_length"
  shows "assemble_feature tokens_a None tk max_seq_length =
    Inr (convert_tokens_to_ids tk ([''[CLS]''] @ tokens_a @ [''[SEP]'']) @
           replicate (nat (max_seq_length - int (length tokens_a) - 2)) 0,
         replicate (length tokens_a + 2) 0 @
           replicate (nat (max_seq_length - int (length tokens_a) - 2)) 0,
         replicate (length tokens_a + 2) 1 @
           replicate (nat (max_seq_length - int (length tokens_a) - 2)) 0)"
proof -
  have "max_seq_length - (2 + int (length tokens_a)) = max_seq_length - int (length tokens_a) - 2"
    by simp
  then show ?thesis using fit
    by (simp add: assemble_feature_def Let_def lp)
qed

lemma single_feature_ok:
  assumes "2 \<le> max_seq_length"
    and lp: "\<And>tokens. length (convert_tokens_to_ids tk tokens) = length tokens"
    and rg: "\<And>tokens. list_all in_int64 (convert_tokens_to_ids tk tokens)"
  shows "\<exists>ids seg msk.
      text_pair_to_feature text None tk max_seq_length = Inr (ids, seg, msk) \<and>
      length ids = nat max_seq_length \<and> length seg = nat max_seq_length \<and>
      length msk = nat max_seq_length \<and>
      list_all in_int64 ids \<and> list_all in_int64 seg \<and> list_all in_int64 msk"
proof -
  let ?ta = "truncate_single (tokenize tk text) max_seq_length"
  have tt: "truncate_tokens text None tk max_seq_length = Inr (?ta, None)"
    by (simp add: truncate_tokens_def)
  have fit: "int (length ?ta) + 2 \<le> max_seq_length"
    using assms(1) by (simp add: length_truncate_single)
  note af = assemble_feature_single[OF lp fit]
  have len: "length ?ta + 2 + nat (max_seq_length - int (length ?ta) - 2) = nat max_seq_length"
    using fit by linarith
  show ?thesis
    unfolding text_pair_to_feature_def tt
    using len rg by (auto simp: af lp list_all_iff in_int64_small)
qed

lemma LongTensor_ok: "list_all in_int64 xs \<Longrightarrow> LongTensor xs = Inr xs"
  by (simp add: LongTensor_def)

text \<open>
  The feature builder returns \<open>(input_ids, segment_ids, input_mask)\<close> and
  \<open>InputFeatures\<close> takes \<open>(input_ids, input_mask, segment_ids)\<close> by position, so the
  tensors of \<open>to_tensor\<close> hold, in order, the ids, the mask and the segment ids of the
  builder; \<open>forward\<close> reads the second one as the mask.
\<close>

lemma to_tensor_order:
  assumes "list_all in_int64 ids" "list_all in_int64 segments" "list_all in_int64 msk"
  shows "to_tensor (InputFeatures_init ids segments msk) = Inr (ids, msk, segments)"
  using assms by (simp add: to_tensor_def InputFeatures_init_def LongTensor_ok)

lemma feature_tensors_ok:
  assumes "2 \<le> max_seq_length"
    and lp: "\<And>tokens. length (convert_tokens_to_ids tk tokens) = length tokens"
    and rg: "\<And>tokens. list_all in_int64 (convert_tokens_to_ids tk tokens)"
  shows "\<exists>ids seg msk.
      text_pair_to_feature text None tk max_seq_length = Inr (ids, seg, msk) \<and>
      to_tensor (InputFeatures_init ids seg msk) = Inr (ids, msk, seg) \<and>
      length ids = nat max_seq_length \<and> length seg = nat max_seq_length \<and>
      length msk = nat max_seq_length"
  using single_feature_ok[OF assms, of "text"] to_tensor_order by blast

lemma example_to_tensors_ok:
  assumes "2 \<le> max_len"
    and lp: "\<And>tokens. length (convert_tokens_to_ids tk tokens) = length tokens"
    and rg: "\<And>tokens. list_all in_int64 (convert_tokens_to_ids tk tokens)"
    and lab: "in_int64 lab"
  shows "\<exists>a1 a2 a3 b1 b2 b3 c1 c2 c3 l.
      example_to_tensors max_len tk (ta, tb, tc, lab) =
        Inr ((a1, a2, a3), (b1, b2, b3), (c1, c2, c3), l) \<and>
      length a1 = nat max_len \<and> length a2 = nat max_len \<and> length a3 = nat max_len \<and>
      length b1 = nat max_len \<and> length b2 = nat max_len \<and> length b3 = nat max_len \<and>
      length c1 = nat max_len \<and> length c2 = nat max_len \<and> length c3 = nat max_len \<and>
      length l = 1"
proof -
  from feature_tensors_ok[OF assms(1-3), of ta] obtain a1 a2 a3 where
    a: "text_pair_to_feature ta None tk max_len = Inr (a1, a2, a3)"
      "to_tensor (InputFeatures_init a1 a2 a3) = Inr (a1, a3, a2)"
      "length a1 = nat max_len" "length a2 = nat max_len" "length a3 = nat max_len" by blast
  from feature_tensors_ok[OF assms(1-3), of tb] obtain b1 b2 b3 where
    b: "text_pair_to_feature tb None tk max_len = Inr (b1, b2, b3)"
      "to_tensor (InputFeatures_init b1 b2 b3) = Inr (b1, b3, b2)"
      "length b1 = nat max_len" "length b2 = nat max_len" "length b3 = nat max_len" by blast
  from feature_tensors_ok[OF assms(1-3), of tc] obtain c1 c2 c3 where
    c: "text_pair_to_feature tc None tk max_len = Inr (c1, c2, c3)"
      "to_tensor (InputFeatures_init c1 c2 c3) = Inr (c1, c3, c2)"
      "length c1 = nat max_len" "length c2 = nat max_len" "length c3 = nat max_len" by blast
  have "example_to_tensors max_len tk (ta, tb, tc, lab) =
      Inr ((a1, a3, a2), (b1, b3, b2), (c1, c3, c2), [lab])"
    using a(1,2) b(1,2) c(1,2) lab
    by (simp add: example_to_tensors_def to_two_pair_feature_def LongTensor_ok)
  then show ?thesis using a(3-5) b(3-5) c(3-5) by simp
qed

lemma example_tensors_ok:
  assumes "2 \<le> max_len"
    and lp: "\<And>tokens. length (convert_tokens_to_ids tk tokens) = length tokens"
    and rg: "\<And>tokens. list_all in_int64 (convert_tokens_to_ids tk tokens)"
    and labs: "list_all (\<lambda>(ta, tb, tc, lab). in_int64 lab) batch"
  shows "\<exists>ts. example_tensors max_len tk batch = Inr ts \<and> length ts = length batch \<and>
      (\<forall>((a1, a2, a3), (b1, b2, b3), (c1, c2, c3), l) \<in> set ts.
         length a1 = nat max_len \<and> length a2 = nat max_len \<and> length a3 = nat max_len \<and>
         length b1 = nat max_len \<and> length b2 = nat max_len \<and> length b3 = nat max_len \<and>
         length c1 = nat max_len \<and> length c2 = nat max_len \<and> length c3 = nat max_len \<and>
         length l = 1)"
  using labs
proof (induction batch)
  case Nil
  show ?case by simp
next
  case (Cons ex batch)
  obtain ta tb tc lab where ex: "ex = (ta, tb, tc, lab)" by (cases ex) auto
  with Cons.prems have lab: "in_int64 lab"
    and rest: "list_all (\<lambda>(ta, tb, tc, lab). in_int64 lab) batch" by simp_all
  from Cons.IH[OF rest] obtain ts where ts: "example_tensors max_len tk batch = Inr ts"
    "length ts = length batch"
    "\<forall>((a1, a2, a3), (b1, b2, b3), (c1, c2, c3), l) \<in> set ts.
         length a1 = nat max_len \<and> length a2 = nat max_len \<and> length a3 = nat max_len \<and>
         length b1 = nat max_len \<and> length b2 = nat max_len \<and> length b3 = nat max_len \<and>
         length c1 = nat max_len \<and> length c2 = nat max_len \<and> length c3 = nat max_len \<and>
         length l = 1" by blast
  from example_to_tensors_ok[OF assms(1-3) lab, of ta tb tc]
  obtain a1 a2 a3 b1 b2 b3 c1 c2 c3 l where t:
    "example_to_tensors max_len tk (ta, tb, tc, lab) =
        Inr ((a1, a2, a3), (b1, b2, b3), (c1, c2, c3), l)"
    "length a1 = nat max_len" "length a2 = nat max_len" "length a3 = nat max_len"
    "length b1 = nat max_len" "length b2 = nat max_len" "length b3 = nat max_len"
    "length c1 = nat max_len" "length c2 = nat max_len" "length c3 = nat max_len"
    "length l = 1" by blast
  have "example_tensors max_len tk (ex # batch) =
      Inr (((a1, a2, a3), (b1, b2, b3), (c1, c2, c3), l) # ts)"
    using ex ts(1) t(1) by simp
  then show ?case using ts(2,3) t(2-11) by simp
qed

lemma stack_ok:
  assumes "ts \<noteq> []" and "\<forall>t \<in> set ts. length t = m"
  shows "stack ts = Inr ts \<and> has_shape2 ts (length ts) m"
  using assms by (cases ts) (auto simp: stack_def has_shape2_def shape2_def list_all_iff)

lemma collate_features_ok:
  assumes "fs \<noteq> []" and "\<forall>(x, y, z) \<in> set fs. length x = m \<and> length y = m \<and> length z = m"
  shows "\<exists>xs ys zs. collate_features fs = Inr (xs, ys, zs) \<and>
      has_shape2 xs (length fs) m \<and> has_shape2 ys (length fs) m \<and> has_shape2 zs (length fs) m"
proof -
  have x: "stack (map (\<lambda>(x, y, z). x) fs) = Inr (map (\<lambda>(x, y, z). x) fs) \<and>
      has_shape2 (map (\<lambda>(x, y, z). x) fs) (length (map (\<lambda>(x, y, z). x) fs)) m"
    by (rule stack_ok) (use assms in auto)
  have y: "stack (map (\<lambda>(x, y, z). y) fs) = Inr (map (\<lambda>(x, y, z). y) fs) \<and>
      has_shape2 (map (\<lambda>(x, y, z). y) fs) (length (map (\<lambda>(x, y, z). y) fs)) m"
    by (rule stack_ok) (use assms in auto)
  have z: "stack (map (\<lambda>(x, y, z). z) fs) = Inr (map (\<lambda>(x, y, z). z) fs) \<and>
      has_shape2 (map (\<lambda>(x, y, z). z) fs) (length (map (\<lambda>(x, y, z). z) fs)) m"
    by (rule stack_ok) (use assms in auto)
  from x y z show ?thesis by (simp add: collate_features_def)
qed

text \<open>
  Claim C9, as amended. For every non-empty batch of examples whose labels fit in 64
  bits and every \<open>max_len \<ge> 2\<close>, with a tokenizer whose \<open>convert_tokens_to_ids\<close> returns
  one id per token, each fitting in 64 bits, the collator returns three triples of
  tensors, each tensor of shape \<open>[batch, max_len]\<close>, and a label tensor of shape
  \<open>[batch, 1]\<close>.
\<close>

theorem collate_shapes:
  assumes "2 \<le> max_len"
    and "\<And>tokens. length (convert_tokens_to_ids tk tokens) = length tokens"
    and "\<And>tokens. list_all in_int64 (convert_tokens_to_ids tk tokens)"
    and "list_all (\<lambda>(ta, tb, tc, lab). in_int64 lab) batch"
    and "batch \<noteq> []"
  shows "\<exists>a1 a2 a3 b1 b2 b3 c1 c2 c3 labels.
      three_pair_collate_fn max_len tk batch =
        Inr ((a1, a2, a3), (b1, b2, b3), (c1, c2, c3), labels) \<and>
      has_shape2 a1 (length batch) (nat max_len) \<and>
      has_shape2 a2 (length batch) (nat max_len) \<and>
      has_shape2 a3 (length batch) (nat max_len) \<and>
      has_shape2 b1 (length batch) (nat max_len) \<and>
      has_shape2 b2 (length batch) (nat max_len) \<and>
      has_shape2 b3 (length batch) (nat max_len) \<and>
      has_shape2 c1 (length batch) (nat max_len) \<and>
      has_shape2 c2 (length batch) (nat max_len) \<and>
      has_shape2 c3 (length batch) (nat max_len) \<and>
      has_shape2 labels (length batch) 1"
proof -
  from example_tensors_ok[OF assms(1-4)] obtain ts where
    ts: "example_tensors max_len tk batch = Inr ts" "length ts = length batch"
    and feat: "\<forall>((a1, a2, a3), (b1, b2, b3), (c1, c2, c3), l) \<in> set ts.
         length a1 = nat max_len \<and> length a2 = nat max_len \<and> length a3 = nat max_len \<and>
         length b1 = nat max_len \<and> length b2 = nat max_len \<and> length b3 = nat max_len \<and>
         length c1 = nat max_len \<and> length c2 = nat max_len \<and> length c3 = nat max_len \<and>
         length l = 1" by blast
  from ts(2) assms(5) have ne: "ts \<noteq> []" by auto
  have "\<exists>xs ys zs. collate_features (map (\<lambda>(a, b, c, l). a) ts) = Inr (xs, ys, zs) \<and>
      has_shape2 xs (length (map (\<lambda>(a, b, c, l). a) ts)) (nat max_len) \<and>
      has_shape2 ys (length (map (\<lambda>(a, b, c, l). a) ts)) (nat max_len) \<and>
      has_shape2 zs (length (map (\<lambda>(a, b, c, l). a) ts)) (nat max_len)"
    by (rule collate_features_ok) (use ne feat in fastforce)+
  then obtain a1 a2 a3 where a: "collate_features (map (\<lambda>(a, b, c, l). a) ts) = Inr (a1, a2, a3)"
    "has_shape2 a1 (length batch) (nat max_len)" "has_shape2 a2 (length batch) (nat max_len)"
    "has_shape2 a3 (length batch) (nat max_len)" using ts(2) by auto
  have "\<exists>xs ys zs. collate_features (map (\<lambda>(a, b, c, l). b) ts) = Inr (xs, ys, zs) \<and>
      has_shape2 xs (length (map (\<lambda>(a, b, c, l). b) ts)) (nat max_len) \<and>
      has_shape2 ys (length (map (\<lambda>(a, b, c, l). b) ts)) (nat max_len) \<and>
      has_shape2 zs (length (map (\<lambda>(a, b, c, l). b) ts)) (nat max_len)"
    by (rule collate_features_ok) (use ne feat in fastforce)+
  then obtain b1 b2 b3 where b: "collate_features (map (\<lambda>(a, b, c, l). b) ts) = Inr (b1, b2, b3)"
    "has_shape2 b1 (length batch) (nat max_len)" "has_shape2 b2 (length batch) (nat max_len)"
    "has_shape2 b3 (length batch) (nat max_len)" using ts(2) by auto
  have "\<exists>xs ys zs. collate_features (map (\<lambda>(a, b, c, l). c) ts) = Inr (xs, ys, zs) \<and>
      has_shape2 xs (length (map (\<lambda>(a, b, c, l). c) ts)) (nat max_len) \<and>
      has_shape2 ys (length (map (\<lambda>(a, b, c, l). c) ts)) (nat max_len) \<and>
      has_shape2 zs (length (map (\<lambda>(a, b, c, l). c) ts)) (nat max_len)"
    by (rule collate_features_ok) (use ne feat in fastforce)+
  then obtain c1 c2 c3 where c: "collate_features (map (\<lambda>(a, b, c, l). c) ts) = Inr (c1, c2, c3)"
    "has_shape2 c1 (length batch) (nat max_len)" "has_shape2 c2 (length batch) (nat max_len)"
    "has_shape2 c3 (length batch) (nat max_len)" using ts(2) by auto
  have "stack (map (\<lambda>(a, b, c, l). l) ts) = Inr (map (\<lambda>(a, b, c, l). l) ts) \<and>
      has_shape2 (map (\<lambda>(a, b, c, l). l) ts) (length (map (\<lambda>(a, b, c, l). l) ts)) 1"
    by (rule stack_ok) (use ne feat in fastforce)+
  then have l: "stack (map (\<lambda>(a, b, c, l). l) ts) = Inr (map (\<lambda>(a, b, c, l). l) ts)"
    "has_shape2 (map (\<lambda>(a, b, c, l). l) ts) (length batch) 1" using ts(2) by auto
  have "three_pair_collate_fn max_len tk batch =
      Inr ((a1, a2, a3), (b1, b2, b3), (c1, c2, c3), map (\<lambda>(a, b, c, l). l) ts)"
    using ts(1) ne a(1) b(1) c(1) l(1) by (simp add: three_pair_collate_fn_def default_collate_def)
  with a(2-4) b(2-4) c(2-4) l(2) show ?thesis by blast
qed

lemma vocabulary_tokenizer_length:
  "length (convert_tokens_to_ids vocabulary_tokenizer tokens) = length tokens"
  by (simp add: vocabulary_tokenizer_def)

lemma vocabulary_tokenizer_int64:
  "list_all in_int64 (convert_tokens_to_ids vocabulary_tokenizer tokens)"
  by (induction tokens) (simp_all add: vocabulary_tokenizer_def in_int64_def)

theorem collate_shapes_witness:
  "(2::int) \<le> 4 \<and>
   (\<forall>tokens. length (convert_tokens_to_ids vocabulary_tokenizer tokens) = length tokens) \<and>
   (\<forall>tokens. list_all in_int64 (convert_tokens_to_ids vocabulary_tokenizer tokens)) \<and>
   list_all (\<lambda>(ta, tb, tc, lab). in_int64 lab) [(''a'', ''b c'', ''d e f'', 1)] \<and>
   [(''a'', ''b c'', ''d e f'', 1::int)] \<noteq> [] \<and>
   (\<exists>a1 a2 a3 b1 b2 b3 c1 c2 c3 labels.
      three_pair_collate_fn 4 vocabulary_tokenizer [(''a'', ''b c'', ''d e f'', 1)] =
        Inr ((a1, a2, a3), (b1, b2, b3), (c1, c2, c3), labels) \<and>
      has_shape2 a1 1 4 \<and> has_shape2 a2 1 4 \<and> has_shape2 a3 1 4 \<and>
      has_shape2 b1 1 4 \<and> has_shape2 b2 1 4 \<and> has_shape2 b3 1 4 \<and>
      has_shape2 c1 1 4 \<and> has_shape2 c2 1 4 \<and> has_shape2 c3 1 4 \<and>
      has_shape2 labels 1 1)"
proof -
  have lab: "list_all (\<lambda>(ta, tb, tc, lab). in_int64 lab) [(''a'', ''b c'', ''d e f'', 1)]"
    by (simp add: in_int64_def)
  have ne: "[(''a'', ''b c'', ''d e f'', 1::int)] \<noteq> []" by simp
  from collate_shapes[of 4 vocabulary_tokenizer, OF _ vocabulary_tokenizer_length
      vocabulary_tokenizer_int64 lab ne]
    vocabulary_tokenizer_length vocabulary_tokenizer_int64 lab
  show ?thesis by simp
qed

text \<open>
  A label that does not fit in 64 bits: \<open>torch.LongTensor([label])\<close> raises, and so does
  the collator.
\<close>

lemma collate_label_overflow:
  "three_pair_collate_fn 4 vocabulary_tokenizer [(''a'', ''b c'', ''d e f'', 2 ^ 63)] =
     Inl RuntimeError"
  by code_simp

text \<open>
  Claim C9 as stated fails on the label tensor: each example contributes the tensor
  \<open>LongTensor([label])\<close> of shape \<open>[1]\<close>, and stacking gives shape \<open>[batch, 1]\<close>, not
  \<open>[batch]\<close>. Here for a batch of one example.
\<close>

theorem collate_label_shape_counterexample:
  "three_pair_collate_fn 4 whitespace_tokenizer [(''a'', ''b c'', ''d e f'', 0)] =
     Inr (([[5, 1, 5, 0]], [[1, 1, 1, 0]], [[0, 0, 0, 0]]),
          ([[5, 1, 1, 5]], [[1, 1, 1, 1]], [[0, 0, 0, 0]]),
          ([[5, 1, 1, 5]], [[1, 1, 1, 1]], [[0, 0, 0, 0]]), [[0]]) \<and>
   shape2 [[0]] = [1, 1] \<and>
   shape2 [[0]] \<noteq> [length [(''a'', ''b c'', ''d e f'', 0::int)]]"
  by code_simp

section \<open>Properties of the model\<close>

lemma broadcast_same: "broadcast s s = Inr s"
proof -
  have "broadcast_rev xs xs = Inr xs" for xs :: shape
    by (induction xs) (simp_all add: and_then_def)
  then show ?thesis by (simp add: broadcast_def and_then_def)
qed

lemma enhance_shape_same:
  "enhance_shape [n, l, w] [n, l, w] = Inr [n, l, 4 * w]"
  by (simp add: enhance_shape_def broadcast_same and_then_def cat_def dim_index_def)

lemma masked_avg_shape_ok: "masked_avg_shape [n, l, w] [n, l] = Inr [n, w]"
  by (simp add: masked_avg_shape_def and_then_def unsqueeze1_def transpose21_def
      broadcast_def reduce_dim_def reduce_keepdim_def dim_index_def)

lemma masked_max_shape_ok: "masked_max_shape [n, l, w] [n, l] = Inr [n, w]"
  by (simp add: masked_max_shape_def and_then_def replace_masked_shape_def reduce_dim_def
      dim_index_def)

lemma siamese_shape_model_init:
  "siamese_shape (model_init config) [n, len_a, hidden_size config] [n, len_b, hidden_size config]
       [n, len_a] [n, len_b] = Inr [n, 8 * hidden_size config]"
  by (simp add: siamese_shape_def and_then_def reduce_dim_def dim_index_def model_init_def
      attention_shape_def enhance_shape_same masked_avg_shape_ok masked_max_shape_ok cat_def)

lemma classification_model_init:
  "classification (model_init config) =
     [Dropout, Linear (8 * hidden_size config) (hidden_size config), Tanh, Dropout,
      Linear (hidden_size config) 2]"
  by (simp add: model_init_def)

text \<open>
  Claim C7, as amended. For every hidden size, batch size and pair of sequence
  lengths, the vector returned by \<open>siamese\<close> has width exactly 8 times the hidden size
  (the masked average and the masked max of each side, each as wide as the output of
  the bidirectional composition encoder, twice the hidden size), the first linear layer
  of the classification head maps \<open>8 * hidden_size\<close> to \<open>hidden_size\<close>, and the head takes
  a batch of vectors to two logits per example exactly when their width is
  \<open>8 * hidden_size\<close>.
\<close>

theorem siamese_width:
  "siamese_shape (model_init config) [n, len_a, hidden_size config] [n, len_b, hidden_size config]
       [n, len_a] [n, len_b] = Inr [n, 8 * hidden_size config] \<and>
   classification (model_init config) ! 1 = Linear (8 * hidden_size config) (hidden_size config) \<and>
   (sequential_shape (classification (model_init config)) [n, w] = Inr [n, 2]) =
     (w = 8 * hidden_size config)"
  by (auto simp: siamese_shape_model_init classification_model_init and_then_def)

text \<open>
  Claim C7 as stated fails: with the hidden size 768 the first linear layer of the
  head is \<open>nn.Linear(6144, 768)\<close>, not \<open>nn.Linear(3072, 768)\<close>, and the vector of
  \<open>siamese\<close> has width 6144, not 3072.
\<close>

theorem siamese_width_counterexample:
  "classification (model_init \<lparr>hidden_size = 768\<rparr>) ! 1 = Linear 6144 768 \<and>
   Linear 6144 768 \<noteq> Linear (4 * 768) 768 \<and>
   siamese_shape (model_init \<lparr>hidden_size = 768\<rparr>) [2, 16, 768] [2, 16, 768] [2, 16] [2, 16] =
     Inr [2, 6144] \<and>
   [2, 6144] \<noteq> [2, 4 * 768 :: nat]"
  using siamese_shape_model_init[of "\<lparr>hidden_size = 768\<rparr>" 2 16 16]
  by (simp add: classification_model_init)

section \<open>Properties of \<open>forward\<close>\<close>

text \<open>On shapes the head of \<open>forward\<close> is the \<open>nn.Sequential\<close> of the model.\<close>

lemma classification_head_shape:
  "classification_head (shape_ops (model_init config)) training draws s =
     sequential_shape (classification (model_init config)) s"
  by (simp add: classification_head_def nn_dropout_def shape_ops_def classification_model_init
      and_then_def split: sum.splits)

text \<open>In evaluation mode the output of the head does not depend on the draws.\<close>

lemma forward_output_eval:
  "forward_output ops False draws a b c = forward_output ops False draws' a b c"
  by (simp add: forward_output_def classification_head_def nn_dropout_def)

text \<open>
  Claim C10, as amended. For every input batch on which the computation before the
  dispatch (the same for every mode) completes, and every mode string other than
  \<open>"prob"\<close>, \<open>"logits"\<close>, \<open>"loss"\<close> and \<open>"evaluate"\<close>, \<open>forward\<close> falls through every
  branch of the dispatch and returns \<open>None\<close> without raising; \<open>labels\<close> is not looked at.
\<close>

theorem forward_unknown_mode:
  assumes "mode \<notin> {''prob'', ''logits'', ''loss'', ''evaluate''}"
    and "forward_output ops training draws a b c = Inr output"
  shows "forward ops training draws a b c labels mode = Inr ReturnNone"
  using assms by (simp add: forward_def and_then_def)

theorem forward_unknown_mode_witness:
  "''train'' \<notin> {''prob'', ''logits'', ''loss'', ''evaluate''} \<and>
   forward_output (shape_ops (model_init \<lparr>hidden_size = 3\<rparr>)) True ((), ())
     ([2, 5], [2, 5], [2, 5]) ([2, 5], [2, 5], [2, 5]) ([2, 5], [2, 5], [2, 5]) = Inr [2, 2] \<and>
   forward (shape_ops (model_init \<lparr>hidden_size = 3\<rparr>)) True ((), ())
     ([2, 5], [2, 5], [2, 5]) ([2, 5], [2, 5], [2, 5]) ([2, 5], [2, 5], [2, 5]) None ''train'' =
     Inr ReturnNone"
proof -
  have m: "''train'' \<notin> {''prob'', ''logits'', ''loss'', ''evaluate''}" by simp
  have o: "forward_output (shape_ops (model_init \<lparr>hidden_size = 3\<rparr>)) True ((), ())
     ([2, 5], [2, 5], [2, 5]) ([2, 5], [2, 5], [2, 5]) ([2, 5], [2, 5], [2, 5]) = Inr [2, 2]"
    by code_simp
  from forward_unknown_mode[OF m o, of None] m o show ?thesis by simp
qed

text \<open>
  Claim C10 as stated, for every input batch, fails on a batch that the computation
  before the dispatch rejects: with a mask of 4 positions for ids of 5 positions
  \<open>siamese\<close> raises RuntimeError, and so does \<open>forward\<close>, whatever the mode.
\<close>

theorem forward_unknown_mode_counterexample:
  "forward (shape_ops (model_init \<lparr>hidden_size = 3\<rparr>)) True ((), ())
     ([2, 5], [2, 4], [2, 5]) ([2, 5], [2, 5], [2, 5]) ([2, 5], [2, 5], [2, 5]) None ''train'' =
     Inl RuntimeError"
  by code_simp

text \<open>
  Claim C8, as amended. For every identical input batch, when the module is in
  evaluation mode, or when the dropout layers of the head draw the same masks in the
  two calls, the output of \<open>forward\<close> with mode \<open>"prob"\<close> is the softmax over dimension 1
  of the output of \<open>forward\<close> with mode \<open>"logits"\<close> (the same operation on the same
  tensor, so they agree exactly and within every tolerance).
\<close>

theorem prob_is_softmax_of_logits:
  assumes "draws' = draws \<or> \<not> training"
    and "forward ops training draws a b c labels ''logits'' = Inr (ReturnTensor output)"
  shows "forward ops training draws' a b c labels' ''prob'' =
    (case softmax_dim1 ops output of Inl e \<Rightarrow> Inl e | Inr prob \<Rightarrow> Inr (ReturnTensor prob))"
proof -
  have same: "forward_output ops training draws' a b c = forward_output ops training draws a b c"
    using assms(1) forward_output_eval[of ops draws' a b c draws] by auto
  have "forward_output ops training draws a b c = Inr output"
    using assms(2) by (simp add: forward_def and_then_def split: sum.splits)
  with same show ?thesis by (simp add: forward_def and_then_def)
qed

lemma softmax_not_half: "x \<noteq> 0 \<Longrightarrow> exp x / (exp x + 1) \<noteq> (1::real) / 2"
proof
  assume "x \<noteq> 0" and "exp x / (exp x + 1) = (1::real) / 2"
  then have "2 * exp x = exp x + 1"
    by (simp add: field_simps add_pos_pos)
  then have "exp x = 1" by simp
  with \<open>x \<noteq> 0\<close> show False by simp
qed

text \<open>
  A head on numbers: hidden size 1, dropout probability 1/2, first layer with zero
  weights and bias 1, second layer with weights 1 and 0 and zero bias; a batch of one
  example. Its logits in training mode when the second dropout layer drops the hidden
  unit, in training mode when it keeps it, and in evaluation mode.
\<close>

lemma example_logits_dropped:
  "forward_output (real_head_ops (1/2) [[0, 0, 0, 0, 0, 0, 0, 0]] [1] [[1], [0]] [0, 0] stand_in_ops)
     True (\<lambda>i j. True, \<lambda>i j. False)
     ([[0, 0, 0, 0, 0, 0, 0, 0]], [[1, 1, 1, 1, 1, 1, 1, 1]], [[0, 0, 0, 0, 0, 0, 0, 0]])
     ([[0, 0, 0, 0, 0, 0, 0, 0]], [[1, 1, 1, 1, 1, 1, 1, 1]], [[0, 0, 0, 0, 0, 0, 0, 0]])
     ([[0, 0, 0, 0, 0, 0, 0, 0]], [[1, 1, 1, 1, 1, 1, 1, 1]], [[0, 0, 0, 0, 0, 0, 0, 0]]) =
   Inr [[0, 0]]"
  by (simp add: forward_output_def classification_head_def nn_dropout_def real_head_ops_def
      stand_in_ops_def and_then_def dropout_values_def linear_values_def)

lemma example_logits_kept:
  "forward_output (real_head_ops (1/2) [[0, 0, 0, 0, 0, 0, 0, 0]] [1] [[1], [0]] [0, 0] stand_in_ops)
     True (\<lambda>i j. True, \<lambda>i j. True)
     ([[0, 0, 0, 0, 0, 0, 0, 0]], [[1, 1, 1, 1, 1, 1, 1, 1]], [[0, 0, 0, 0, 0, 0, 0, 0]])
     ([[0, 0, 0, 0, 0, 0, 0, 0]], [[1, 1, 1, 1, 1, 1, 1, 1]], [[0, 0, 0, 0, 0, 0, 0, 0]])
     ([[0, 0, 0, 0, 0, 0, 0, 0]], [[1, 1, 1, 1, 1, 1, 1, 1]], [[0, 0, 0, 0, 0, 0, 0, 0]]) =
   Inr [[2 * tanh 1, 0]]"
  by (simp add: forward_output_def classification_head_def nn_dropout_def real_head_ops_def
      stand_in_ops_def and_then_def dropout_values_def linear_values_def)

lemma example_logits_eval:
  "forward_output (real_head_ops (1/2) [[0, 0, 0, 0, 0, 0, 0, 0]] [1] [[1], [0]] [0, 0] stand_in_ops)
     False draws
     ([[0, 0, 0, 0, 0, 0, 0, 0]], [[1, 1, 1, 1, 1, 1, 1, 1]], [[0, 0, 0, 0, 0, 0, 0, 0]])
     ([[0, 0, 0, 0, 0, 0, 0, 0]], [[1, 1, 1, 1, 1, 1, 1, 1]], [[0, 0, 0, 0, 0, 0, 0, 0]])
     ([[0, 0, 0, 0, 0, 0, 0, 0]], [[1, 1, 1, 1, 1, 1, 1, 1]], [[0, 0, 0, 0, 0, 0, 0, 0]]) =
   Inr [[tanh 1, 0]]"
  by (simp add: forward_output_def classification_head_def nn_dropout_def real_head_ops_def
      stand_in_ops_def and_then_def dropout_values_def linear_values_def)

lemma example_softmax:
  "softmax_dim1 (real_head_ops p w1 b1 w2 b2 base) x = Inr (softmax_rows x)"
  by (simp add: real_head_ops_def)

text \<open>
  Claim C8 as stated fails in training mode, where the two calls draw their dropout
  masks independently: on the same batch the call with mode \<open>"logits"\<close>, whose second
  dropout layer drops the hidden unit, returns the logits \<open>[0, 0]\<close>, whose softmax is
  \<open>[1/2, 1/2]\<close>, and the call with mode \<open>"prob"\<close>, whose dropout layers keep
  everything, returns other probabilities.
\<close>

theorem prob_is_softmax_of_logits_counterexample:
  "forward (real_head_ops (1/2) [[0, 0, 0, 0, 0, 0, 0, 0]] [1] [[1], [0]] [0, 0] stand_in_ops)
     True (\<lambda>i j. True, \<lambda>i j. False)
     ([[0, 0, 0, 0, 0, 0, 0, 0]], [[1, 1, 1, 1, 1, 1, 1, 1]], [[0, 0, 0, 0, 0, 0, 0, 0]])
     ([[0, 0, 0, 0, 0, 0, 0, 0]], [[1, 1, 1, 1, 1, 1, 1, 1]], [[0, 0, 0, 0, 0, 0, 0, 0]])
     ([[0, 0, 0, 0, 0, 0, 0, 0]], [[1, 1, 1, 1, 1, 1, 1, 1]], [[0, 0, 0, 0, 0, 0, 0, 0]])
     None ''logits'' = Inr (ReturnTensor [[0, 0]]) \<and>
   softmax_rows [[0, 0]] = [[1 / 2, 1 / 2]] \<and>
   forward (real_head_ops (1/2) [[0, 0, 0, 0, 0, 0, 0, 0]] [1] [[1], [0]] [0, 0] stand_in_ops)
     True (\<lambda>i j. True, \<lambda>i j. True)
     ([[0, 0, 0, 0, 0, 0, 0, 0]], [[1, 1, 1, 1, 1, 1, 1, 1]], [[0, 0, 0, 0, 0, 0, 0, 0]])
     ([[0, 0, 0, 0, 0, 0, 0, 0]], [[1, 1, 1, 1, 1, 1, 1, 1]], [[0, 0, 0, 0, 0, 0, 0, 0]])
     ([[0, 0, 0, 0, 0, 0, 0, 0]], [[1, 1, 1, 1, 1, 1, 1, 1]], [[0, 0, 0, 0, 0, 0, 0, 0]])
     None ''prob'' \<noteq> Inr (ReturnTensor [[1 / 2, 1 / 2]])"
proof (intro conjI)
  show "forward (real_head_ops (1/2) [[0, 0, 0, 0, 0, 0, 0, 0]] [1] [[1], [0]] [0, 0] stand_in_ops)
     True (\<lambda>i j. True, \<lambda>i j. False)
     ([[0, 0, 0, 0, 0, 0, 0, 0]], [[1, 1, 1, 1, 1, 1, 1, 1]], [[0, 0, 0, 0, 0, 0, 0, 0]])
     ([[0, 0, 0, 0, 0, 0, 0, 0]], [[1, 1, 1, 1, 1, 1, 1, 1]], [[0, 0, 0, 0, 0, 0, 0, 0]])
     ([[0, 0, 0, 0, 0, 0, 0, 0]], [[1, 1, 1, 1, 1, 1, 1, 1]], [[0, 0, 0, 0, 0, 0, 0, 0]])
     None ''logits'' = Inr (ReturnTensor [[0, 0]])"
    by (simp add: forward_def example_logits_dropped and_then_def)
  show "softmax_rows [[0, 0]] = [[1 / 2, 1 / 2]]"
    by (simp add: softmax_rows_def)
  have "2 * tanh (1::real) \<noteq> 0" by simp
  then have "exp (2 * tanh (1::real)) / (exp (2 * tanh 1) + 1) \<noteq> 1 / 2"
    by (rule softmax_not_half)
  then show "forward (real_head_ops (1/2) [[0, 0, 0, 0, 0, 0, 0, 0]] [1] [[1], [0]] [0, 0] stand_in_ops)
     True (\<lambda>i j. True, \<lambda>i j. True)
     ([[0, 0, 0, 0, 0, 0, 0, 0]], [[1, 1, 1, 1, 1, 1, 1, 1]], [[0, 0, 0, 0, 0, 0, 0, 0]])
     ([[0, 0, 0, 0, 0, 0, 0, 0]], [[1, 1, 1, 1, 1, 1, 1, 1]], [[0, 0, 0, 0, 0, 0, 0, 0]])
     ([[0, 0, 0, 0, 0, 0, 0, 0]], [[1, 1, 1, 1, 1, 1, 1, 1]], [[0, 0, 0, 0, 0, 0, 0, 0]])
     None ''prob'' \<noteq> Inr (ReturnTensor [[1 / 2, 1 / 2]])"
    by (simp add: forward_def example_logits_kept and_then_def example_softmax softmax_rows_def)
qed

text \<open>In evaluation mode, with different draws in the two calls.\<close>

theorem prob_is_softmax_of_logits_witness:
  "((\<lambda>i j. False, \<lambda>i j. False) = (\<lambda>i j :: nat. True, \<lambda>i j :: nat. True) \<or> \<not> False) \<and>
   forward (real_head_ops (1/2) [[0, 0, 0, 0, 0, 0, 0, 0]] [1] [[1], [0]] [0, 0] stand_in_ops)
     False (\<lambda>i j. True, \<lambda>i j. True)
     ([[0, 0, 0, 0, 0, 0, 0, 0]], [[1, 1, 1, 1, 1, 1, 1, 1]], [[0, 0, 0, 0, 0, 0, 0, 0]])
     ([[0, 0, 0, 0, 0, 0, 0, 0]], [[1, 1, 1, 1, 1, 1, 1, 1]], [[0, 0, 0, 0, 0, 0, 0, 0]])
     ([[0, 0, 0, 0, 0, 0, 0, 0]], [[1, 1, 1, 1, 1, 1, 1, 1]], [[0, 0, 0, 0, 0, 0, 0, 0]])
     None ''logits'' = Inr (ReturnTensor [[tanh 1, 0]]) \<and>
   forward (real_head_ops (1/2) [[0, 0, 0, 0, 0, 0, 0, 0]] [1] [[1], [0]] [0, 0] stand_in_ops)
     False (\<lambda>i j. False, \<lambda>i j. False)
     ([[0, 0, 0, 0, 0, 0, 0, 0]], [[1, 1, 1, 1, 1, 1, 1, 1]], [[0, 0, 0, 0, 0, 0, 0, 0]])
     ([[0, 0, 0, 0, 0, 0, 0, 0]], [[1, 1, 1, 1, 1, 1, 1, 1]], [[0, 0, 0, 0, 0, 0, 0, 0]])
     ([[0, 0, 0, 0, 0, 0, 0, 0]], [[1, 1, 1, 1, 1, 1, 1, 1]], [[0, 0, 0, 0, 0, 0, 0, 0]])
     None ''prob'' = Inr (ReturnTensor (softmax_rows [[tanh 1, 0]]))"
proof -
  have h: "(\<lambda>i j. False, \<lambda>i j. False) = (\<lambda>i j :: nat. True, \<lambda>i j :: nat. True) \<or> \<not> False"
    by simp
  have l: "forward (real_head_ops (1/2) [[0, 0, 0, 0, 0, 0, 0, 0]] [1] [[1], [0]] [0, 0] stand_in_ops)
     False (\<lambda>i j. True, \<lambda>i j. True)
     ([[0, 0, 0, 0, 0, 0, 0, 0]], [[1, 1, 1, 1, 1, 1, 1, 1]], [[0, 0, 0, 0, 0, 0, 0, 0]])
     ([[0, 0, 0, 0, 0, 0, 0, 0]], [[1, 1, 1, 1, 1, 1, 1, 1]], [[0, 0, 0, 0, 0, 0, 0, 0]])
     ([[0, 0, 0, 0, 0, 0, 0, 0]], [[1, 1, 1, 1, 1, 1, 1, 1]], [[0, 0, 0, 0, 0, 0, 0, 0]])
     None ''logits'' = Inr (ReturnTensor [[tanh 1, 0]])"
    by (simp add: forward_def example_logits_eval and_then_def)
  from prob_is_softmax_of_logits[OF h l, of None] h l show ?thesis
    by (simp add: example_softmax)
qed

text \<open>
  The four known modes: \<open>"logits"\<close> returns the output of the classification head,
  \<open>"prob"\<close> the softmax over dimension 1 of that output, \<open>"loss"\<close> the cross entropy,
  \<open>"evaluate"\<close> all three.
\<close>

lemma forward_known_modes:
  assumes "forward_output ops training draws a b c = Inr output"
  shows "forward ops training draws a b c labels ''logits'' = Inr (ReturnTensor output)"
    and "forward ops training draws a b c labels ''prob'' =
      and_then (softmax_dim1 ops output) (\<lambda>prob. Inr (ReturnTensor prob))"
    and "forward ops training draws a b c labels ''loss'' =
      and_then (loss_of ops output labels) (\<lambda>loss. Inr (ReturnTensor loss))"
    and "forward ops training draws a b c labels ''evaluate'' =
      and_then (softmax_dim1 ops output) (\<lambda>prob.
      and_then (loss_of ops output labels) (\<lambda>loss. Inr (ReturnTriple output prob loss)))"
  using assms by (simp_all add: forward_def and_then_def)

text \<open>Without labels the modes \<open>"loss"\<close> and \<open>"evaluate"\<close> raise.\<close>

lemma forward_needs_labels:
  assumes "forward_output ops training draws a b c = Inr output"
    and "mode = ''loss'' \<or> mode = ''evaluate''"
  shows "\<exists>e. forward ops training draws a b c None mode = Inl e"
  using assms
  by (cases "view_pairs ops output"; cases "softmax_dim1 ops output")
    (auto simp: forward_def loss_of_def and_then_def)

end
